theory Spec2Isabelle
  imports Complex_Main "HOL-Library.AList"
begin

section \<open>Values, errors and tables\<close>

text \<open>
  The program is Python 2 on top of pandas and NumPy. An exception that leaves a function
  is a value \<open>Inl e\<close> of the sum type \<open>error + 'a\<close>; a normal return is \<open>Inr v\<close>.
\<close>

datatype error = TypeError | ValueError | KeyError | ZeroDivisionError | IOError

definition bind_err :: "error + 'a \<Rightarrow> ('a \<Rightarrow> error + 'b) \<Rightarrow> error + 'b" where
  "bind_err m f = (case m of Inl e \<Rightarrow> Inl e | Inr v \<Rightarrow> f v)"

text \<open>
  A floating-point cell of a table is a real number, or \<open>None\<close> for NaN, which is also
  pandas' null. The finite values are idealised as reals; infinities do not occur in the
  functions modelled here. Comparisons with NaN are false, as in NumPy.
\<close>

type_synonym cell = "real option"

definition isnull :: "cell \<Rightarrow> bool" where
  "isnull c = (case c of None \<Rightarrow> True | Some x \<Rightarrow> False)"

definition cle :: "cell \<Rightarrow> real \<Rightarrow> bool" where
  "cle c t = (case c of None \<Rightarrow> False | Some x \<Rightarrow> x \<le> t)"

definition clt :: "cell \<Rightarrow> real \<Rightarrow> bool" where
  "clt c t = (case c of None \<Rightarrow> False | Some x \<Rightarrow> x < t)"

definition cge :: "cell \<Rightarrow> real \<Rightarrow> bool" where
  "cge c t = (case c of None \<Rightarrow> False | Some x \<Rightarrow> x \<ge> t)"

definition cgt :: "cell \<Rightarrow> real \<Rightarrow> bool" where
  "cgt c t = (case c of None \<Rightarrow> False | Some x \<Rightarrow> x > t)"

text \<open>
  A Python dictionary is an association list with one entry per key; \<open>AList.update\<close>
  is the assignment \<open>d[k] = v\<close> and \<open>map_of\<close> the lookup. None of the functions below
  depends on the iteration order of a dictionary.

  A text file is the list of its lines, each line already cut into its
  whitespace-separated columns (\<open>line.split()\<close>).
\<close>

type_synonym 'v dict = "(string \<times> 'v) list"

type_synonym textfile = "string list list"

section \<open>The ortholog index: \<open>fetch_orthologs\<close>\<close>

text \<open>\<open>g.split('|')[0]\<close>: the part of a gene identifier before its first pipe.\<close>

definition species :: "string \<Rightarrow> string" where
  "species g = takeWhile (\<lambda>c. c \<noteq> CHR ''|'') g"

text \<open>\<open>counts[spec]\<close> on a \<open>collections.Counter\<close>: a missing key reads as 0.\<close>

definition counter_get :: "int dict \<Rightarrow> string \<Rightarrow> int" where
  "counter_get counts k = (case map_of counts k of None \<Rightarrow> 0 | Some n \<Rightarrow> n)"

text \<open>
  The inner loop \<open>for g in cols\<close> of \<open>fetch_orthologs\<close>. The test \<open>spec in exclude\<close> is
  reached only when \<open>duplicates\<close> is false; on \<open>exclude = None\<close> it raises TypeError.
\<close>

fun count_species :: "bool \<Rightarrow> string list option \<Rightarrow> string list \<Rightarrow> int dict \<Rightarrow> error + int dict" where
  "count_species duplicates exclude [] counts = Inr counts"
| "count_species duplicates exclude (g # gs) counts =
     (let spec = species g in
      if duplicates then count_species duplicates exclude gs (AList.update spec 1 counts)
      else (case exclude of
              None \<Rightarrow> Inl TypeError
            | Some ex \<Rightarrow>
                if spec \<in> set ex
                then count_species duplicates exclude gs (AList.update spec 1 counts)
                else count_species duplicates exclude gs
                       (AList.update spec (counter_get counts spec + 1) counts)))"

text \<open>\<open>if mustcontain:\<close> is false for \<open>None\<close> and for an empty list.\<close>

definition whitelist_of :: "string list option \<Rightarrow> int dict \<Rightarrow> string list" where
  "whitelist_of mustcontain counts =
     (case mustcontain of
        None \<Rightarrow> map fst counts
      | Some ws \<Rightarrow> if ws = [] then map fst counts else ws)"

definition group_accepted :: "string list option \<Rightarrow> int dict \<Rightarrow> bool" where
  "group_accepted mustcontain counts =
     (list_all (\<lambda>c. c \<le> 1) (map snd counts) \<and>
      list_all (\<lambda>wl. wl \<in> set (map fst counts)) (whitelist_of mustcontain counts))"

text \<open>\<open>ortho_dic.update({ g:cols[0] for g in cols })\<close>: every column, the group
  identifier included, becomes a key.\<close>

definition add_group :: "string list \<Rightarrow> string dict \<Rightarrow> string dict" where
  "add_group cols ortho_dic = foldl (\<lambda>d g. AList.update g (hd cols) d) ortho_dic cols"

text \<open>The outer loop \<open>for line in handle\<close>, on the pair \<open>(ortho_dic, ortho_idx)\<close>.\<close>

fun fetch_lines :: "string list option \<Rightarrow> string list option \<Rightarrow> bool \<Rightarrow> textfile \<Rightarrow>
    string dict \<times> string list dict \<Rightarrow> error + string dict \<times> string list dict" where
  "fetch_lines mustcontain exclude duplicates [] acc = Inr acc"
| "fetch_lines mustcontain exclude duplicates (cols # rest) (ortho_dic, ortho_idx) =
     (if length cols > 0 then
        (let ortho_idx' = AList.update (hd cols) (tl cols) ortho_idx in
         case count_species duplicates exclude cols [] of
           Inl e \<Rightarrow> Inl e
         | Inr counts \<Rightarrow>
             if group_accepted mustcontain counts
             then fetch_lines mustcontain exclude duplicates rest
                    (add_group cols ortho_dic, ortho_idx')
             else fetch_lines mustcontain exclude duplicates rest (ortho_dic, ortho_idx'))
      else fetch_lines mustcontain exclude duplicates rest (ortho_dic, ortho_idx))"

definition fetch_orthologs :: "textfile \<Rightarrow> string list option \<Rightarrow> string list option \<Rightarrow> bool \<Rightarrow>
    error + string dict \<times> string list dict" where
  "fetch_orthologs orthofile mustcontain exclude duplicates =
     fetch_lines mustcontain exclude duplicates orthofile ([], [])"

section \<open>Translating an experiment: \<open>translate_to_orthologs\<close>\<close>

text \<open>
  One row of a translated experiment: the value \<open>padj, logfc, bmean\<close> stored in
  \<open>degdic\<close>, later the columns \<open>padj\<close>, \<open>logfc\<close>, \<open>basemean\<close> of the data frame. A data
  frame indexed by ortholog group is a dictionary of such rows.
\<close>

record deg =
  padj :: cell
  logfc :: cell
  basemean :: cell

type_synonym frame = "deg dict"

text \<open>
  Python's builtin \<open>float(s)\<close> is a parameter of the model: \<open>None\<close> stands for
  ValueError, \<open>Some c\<close> for the parsed cell (\<open>Some None\<close> is a parsed NaN).
\<close>

type_synonym pyfloat = "string \<Rightarrow> cell option"

text \<open>
  Lines 192-200. The \<open>except ValueError\<close> handler calls \<open>float(cols[5])\<close> outside any
  \<open>try\<close>: a column 5 that is neither \<open>NA\<close> nor a number raises ValueError out of the
  function.
\<close>

definition parse_padj :: "pyfloat \<Rightarrow> string list \<Rightarrow> error + cell" where
  "parse_padj float_of cols =
     (case float_of (cols ! 6) of
        Some v \<Rightarrow> Inr v
      | None \<Rightarrow>
          if cols ! 5 = ''NA'' then Inr (Some 1)
          else (case float_of (cols ! 5) of
                  None \<Rightarrow> Inl ValueError
                | Some v \<Rightarrow> if clt v 0.05 then Inr (Some 0.05) else Inr (Some 1)))"

text \<open>Lines 201-209: \<open>try: x = float(s) except ValueError: x = 0\<close>.\<close>

definition parse_default :: "pyfloat \<Rightarrow> string \<Rightarrow> cell" where
  "parse_default float_of s = (case float_of s of Some v \<Rightarrow> v | None \<Rightarrow> Some 0)"

text \<open>
  The loop over the lines of the experiment file. The indices 0 to 6 are read only after
  \<open>len(cols) == 7\<close> has been checked, so they are in range.
\<close>

fun translate_lines :: "pyfloat \<Rightarrow> string dict \<Rightarrow> textfile \<Rightarrow> frame \<Rightarrow> error + frame" where
  "translate_lines float_of orthodic [] degdic = Inr degdic"
| "translate_lines float_of orthodic (cols # rest) degdic =
     (if length cols = 7 \<and> cols ! 0 \<noteq> ''baseMean'' then
        (case map_of orthodic (cols ! 0) of
           None \<Rightarrow> translate_lines float_of orthodic rest degdic
         | Some grp \<Rightarrow>
             (case parse_padj float_of cols of
                Inl e \<Rightarrow> Inl e
              | Inr p \<Rightarrow>
                  translate_lines float_of orthodic rest
                    (AList.update grp
                       \<lparr>padj = p,
                        logfc = parse_default float_of (cols ! 2),
                        basemean = parse_default float_of (cols ! 1)\<rparr> degdic)))
      else translate_lines float_of orthodic rest degdic)"

text \<open>\<open>indexed_df['logfc'] * -1\<close>: the whole fold-change column is negated.\<close>

definition flip_logfc :: "frame \<Rightarrow> frame" where
  "flip_logfc df = map (\<lambda>(g, r). (g, r\<lparr>logfc := map_option uminus (logfc r)\<rparr>)) df"

text \<open>
  \<open>if calibrate and df['logfc'].loc[calibrate] < 0\<close>: \<open>None\<close> and the empty string are
  false; the lookup of a group that has no row raises KeyError.
\<close>

definition calibrate_frame :: "string option \<Rightarrow> frame \<Rightarrow> error + frame" where
  "calibrate_frame calibrate df =
     (case calibrate of
        None \<Rightarrow> Inr df
      | Some c \<Rightarrow>
          if c = [] then Inr df
          else (case map_of df c of
                  None \<Rightarrow> Inl KeyError
                | Some r \<Rightarrow> if clt (logfc r) 0 then Inr (flip_logfc df) else Inr df))"

text \<open>
  pandas' \<open>DataFrame.drop_duplicates(keep=False)\<close>: it compares the rows by their column
  values (the index is not a column) and drops every row whose values occur more than
  once in the frame.
\<close>

definition drop_duplicates_keep_False :: "frame \<Rightarrow> frame" where
  "drop_duplicates_keep_False df =
     filter (\<lambda>(g, r). length (filter (\<lambda>(g', r'). r' = r) df) = 1) df"

definition translate_to_orthologs ::
    "pyfloat \<Rightarrow> textfile \<Rightarrow> string dict \<Rightarrow> string option \<Rightarrow> bool \<Rightarrow> error + frame" where
  "translate_to_orthologs float_of degfile orthodic calibrate duplicates =
     bind_err (translate_lines float_of orthodic degfile []) (\<lambda>degdic.
     bind_err (calibrate_frame calibrate degdic) (\<lambda>indexed_df.
     Inr (if duplicates then drop_duplicates_keep_False indexed_df else indexed_df)))"

text \<open>The adjusted p-value that the translated table holds for a group, if the
  translation returns and the group has a row.\<close>

definition padj_of :: "error + frame \<Rightarrow> string \<Rightarrow> error + cell option" where
  "padj_of t grp = bind_err t (\<lambda>df. Inr (map_option padj (map_of df grp)))"

subsection \<open>A concrete \<open>float\<close> for the examples\<close>

text \<open>
  The builtin \<open>float\<close> on plain decimal literals (an optional minus sign, digits, an
  optional point and more digits) and on \<open>nan\<close>. The examples below use it only on such
  literals and on strings that the builtin rejects as well (\<open>NA\<close>, \<open>n/a\<close>).
\<close>

definition digit_vals :: "(char \<times> nat) list" where
  "digit_vals =
     [(CHR ''0'', 0), (CHR ''1'', 1), (CHR ''2'', 2), (CHR ''3'', 3), (CHR ''4'', 4),
      (CHR ''5'', 5), (CHR ''6'', 6), (CHR ''7'', 7), (CHR ''8'', 8), (CHR ''9'', 9)]"

fun digits_value :: "string \<Rightarrow> nat \<Rightarrow> nat option" where
  "digits_value [] acc = Some acc"
| "digits_value (c # cs) acc =
     (case map_of digit_vals c of
        None \<Rightarrow> None
      | Some d \<Rightarrow> digits_value cs (10 * acc + d))"

definition unsigned_decimal :: "string \<Rightarrow> real option" where
  "unsigned_decimal s =
     (let ip = takeWhile (\<lambda>c. c \<noteq> CHR ''.'') s;
          fp = drop (length ip + 1) s
      in if ip = [] \<and> fp = [] then None
         else (case digits_value ip 0 of
                 None \<Rightarrow> None
               | Some i \<Rightarrow>
                   (case digits_value fp 0 of
                      None \<Rightarrow> None
                    | Some f \<Rightarrow> Some (real i + real f / 10 ^ length fp))))"

definition float_decimal :: pyfloat where
  "float_decimal s =
     (if s = ''nan'' then Some None
      else (case s of
              [] \<Rightarrow> None
            | c # r \<Rightarrow>
                if c = CHR ''-'' then map_option (\<lambda>x. Some (- x)) (unsigned_decimal r)
                else map_option Some (unsigned_decimal s)))"

section \<open>One pairwise comparison\<close>

text \<open>
  \<open>df3 = df1.join(df2, how='left', lsuffix="1st")\<close>: one row per row of \<open>df1\<close>. The first
  component of a joined row holds the columns of \<open>df1\<close> (renamed \<open>padj1st\<close>, \<open>logfc1st\<close>,
  \<open>basemean1st\<close>), the second the columns of \<open>df2\<close> under their own names, all null
  where \<open>df2\<close> has no row for the group.
\<close>

type_synonym joined = "(deg \<times> deg) dict"

definition nan_deg :: deg where
  "nan_deg = \<lparr>padj = None, logfc = None, basemean = None\<rparr>"

definition join_left :: "frame \<Rightarrow> frame \<Rightarrow> joined" where
  "join_left df1 df2 =
     map (\<lambda>(g, r1). (g, (r1, (case map_of df2 g of None \<Rightarrow> nan_deg | Some r2 \<Rightarrow> r2)))) df1"

definition has_na :: "deg \<Rightarrow> bool" where
  "has_na r = (isnull (padj r) \<or> isnull (logfc r) \<or> isnull (basemean r))"

definition dropna :: "joined \<Rightarrow> joined" where
  "dropna df3 = filter (\<lambda>(g, r). \<not> (has_na (fst r) \<or> has_na (snd r))) df3"

text \<open>The columns of a joined row: \<open>padj1st\<close> and \<open>logfc1st\<close> are those of the first
  experiment; \<open>padj2\<close> and \<open>logfc2\<close> stand for the unsuffixed \<open>df3.padj\<close> and \<open>df3.logfc\<close>,
  which are those of the second.\<close>

definition padj1st :: "deg \<times> deg \<Rightarrow> cell" where
  "padj1st r = padj (fst r)"

definition logfc1st :: "deg \<times> deg \<Rightarrow> cell" where
  "logfc1st r = logfc (fst r)"

definition padj2 :: "deg \<times> deg \<Rightarrow> cell" where
  "padj2 r = padj (snd r)"

definition logfc2 :: "deg \<times> deg \<Rightarrow> cell" where
  "logfc2 r = logfc (snd r)"

text \<open>\<open>df3[cond]\<close> and \<open>df3.loc[cond]\<close> keep the rows on which the condition holds;
  \<open>set(df3[cond].index)\<close> is the set of their group identifiers.\<close>

definition select :: "(deg \<times> deg \<Rightarrow> bool) \<Rightarrow> joined \<Rightarrow> joined" where
  "select cond df3 = filter (\<lambda>(g, r). cond r) df3"

definition index_set :: "joined \<Rightarrow> string set" where
  "index_set df3 = set (map fst df3)"

text \<open>\<open>abs(x) >= t\<close> on a cell: false on a null.\<close>

definition abs_ge :: "cell \<Rightarrow> real \<Rightarrow> bool" where
  "abs_ge c t = (case c of None \<Rightarrow> False | Some x \<Rightarrow> \<bar>x\<bar> \<ge> t)"

text \<open>
  Lines 601-616: the rows over which the three restricted correlations and \<open>hsize\<close> are
  computed. The Pearson coefficients themselves are floating-point values that pandas
  computes without raising and that only fill the score tables; the model keeps the row
  selections and leaves the coefficients out. Line 610 compares \<open>df3.padj\<close> with 0.5.
\<close>

definition high_rows :: "real \<Rightarrow> joined \<Rightarrow> joined" where
  "high_rows high_expr df3 =
     select (\<lambda>r. abs_ge (logfc2 r) high_expr \<or> abs_ge (logfc1st r) high_expr) df3"

definition onedeg_rows :: "joined \<Rightarrow> joined" where
  "onedeg_rows df3 = select (\<lambda>r. cle (padj2 r) 0.5 \<or> cle (padj1st r) 0.05) df3"

definition hsize :: "real \<Rightarrow> joined \<Rightarrow> nat" where
  "hsize high_expr df3 =
     length (select (\<lambda>r. abs_ge (logfc2 r) high_expr \<and> abs_ge (logfc1st r) high_expr) df3)"

text \<open>
  Lines 619-620: \<open>x['logfc']/abs(x['logfc'])\<close> inside \<open>df3.apply(..., axis=1)\<close>. The row
  \<open>x\<close> is a pandas Series over a float64 frame, so both operands are NumPy float64
  scalars. NumPy scalar division does not raise: 0.0/0.0 is NaN (with a RuntimeWarning),
  and a NaN operand gives NaN. The divisor \<open>abs(x)\<close> is 0 only when the dividend is, so
  no infinity arises. (A frame in which no value at all parsed would be of integer type;
  NumPy integer division by zero does not raise either. Cells are float64 throughout
  this model.)
\<close>

definition bitfc :: "cell \<Rightarrow> cell" where
  "bitfc c = (case c of None \<Rightarrow> None | Some x \<Rightarrow> if \<bar>x\<bar> = 0 then None else Some (x / \<bar>x\<bar>))"

text \<open>Lines 632-640: the eight sets of group identifiers.\<close>

definition df1_sp :: "joined \<Rightarrow> string set" where
  "df1_sp df3 = index_set (select (\<lambda>r. cle (padj1st r) 0.05 \<and> cgt (logfc1st r) 0) df3)"

definition df2_sp :: "joined \<Rightarrow> string set" where
  "df2_sp df3 = index_set (select (\<lambda>r. cle (padj2 r) 0.05 \<and> cgt (logfc2 r) 0) df3)"

definition df1_sn :: "joined \<Rightarrow> string set" where
  "df1_sn df3 = index_set (select (\<lambda>r. cle (padj1st r) 0.05 \<and> clt (logfc1st r) 0) df3)"

definition df2_sn :: "joined \<Rightarrow> string set" where
  "df2_sn df3 = index_set (select (\<lambda>r. cle (padj2 r) 0.05 \<and> clt (logfc2 r) 0) df3)"

definition df1_nsp :: "joined \<Rightarrow> string set" where
  "df1_nsp df3 = index_set (select (\<lambda>r. cgt (padj1st r) 0.05 \<and> cgt (logfc1st r) 0) df3)"

definition df2_nsp :: "joined \<Rightarrow> string set" where
  "df2_nsp df3 = index_set (select (\<lambda>r. cgt (padj2 r) 0.05 \<and> cgt (logfc2 r) 0) df3)"

definition df1_nsn :: "joined \<Rightarrow> string set" where
  "df1_nsn df3 = index_set (select (\<lambda>r. cgt (padj1st r) 0.05 \<and> clt (logfc1st r) 0) df3)"

definition df2_nsn :: "joined \<Rightarrow> string set" where
  "df2_nsn df3 = index_set (select (\<lambda>r. cgt (padj2 r) 0.05 \<and> clt (logfc2 r) 0) df3)"

text \<open>Lines 643-654: the three row counts.\<close>

definition num_concord :: "joined \<Rightarrow> nat" where
  "num_concord df3 =
     length (select (\<lambda>r. (cgt (logfc1st r) 0 \<and> cgt (logfc2 r) 0) \<or>
                          (clt (logfc1st r) 0 \<and> clt (logfc2 r) 0)) df3)"

definition num_close :: "joined \<Rightarrow> nat" where
  "num_close df3 =
     length (select (\<lambda>r. ((cgt (logfc1st r) 0 \<and> cgt (logfc2 r) 0) \<or>
                           (clt (logfc1st r) 0 \<and> clt (logfc2 r) 0)) \<and>
                          (cle (padj2 r) 0.05 \<or> cle (padj1st r) 0.05)) df3)"

definition num_sig :: "joined \<Rightarrow> nat" where
  "num_sig df3 = length (select (\<lambda>r. cle (padj2 r) 0.05 \<or> cle (padj1st r) 0.05) df3)"

text \<open>
  Division of two Python numbers (\<open>int\<close> or \<open>float\<close>, not NumPy scalars) with a float
  result: a zero divisor raises ZeroDivisionError.
\<close>

definition py_div :: "real \<Rightarrow> real \<Rightarrow> error + real" where
  "py_div a b = (if b = 0 then Inl ZeroDivisionError else Inr (a / b))"

text \<open>\<open>concordancecounts\<close>, lines 242-262. \<open>len\<close> of a set is its cardinality.\<close>

record concordance =
  con_sig1 :: "string set"
  con_nsig1 :: "string set"
  ncon_sig1 :: "string set"
  ncon_nsig1 :: "string set"
  con_sig2 :: "string set"
  con_nsig2 :: "string set"
  ncon_sig2 :: "string set"
  ncon_nsig2 :: "string set"
  bkgd_freq :: real

definition concordancecounts ::
    "string set \<Rightarrow> string set \<Rightarrow> string set \<Rightarrow> string set \<Rightarrow>
     string set \<Rightarrow> string set \<Rightarrow> string set \<Rightarrow> string set \<Rightarrow> error + concordance" where
  "concordancecounts sp1 sp2 sn1 sn2 nsp1 nsp2 nsn1 nsn2 =
     (let bkgd_con = card ((nsp1 \<inter> nsp2) \<union> (nsn1 \<inter> nsn2) \<union> (sp1 \<inter> sp2) \<union> (sn1 \<inter> sn2));
          bkgd_dis = card ((nsp1 \<inter> nsn2) \<union> (nsn1 \<inter> nsp2) \<union> (sn1 \<inter> sp2) \<union> (sp1 \<inter> sn2))
      in bind_err (py_div (1 * real bkgd_con) (real (bkgd_con + bkgd_dis))) (\<lambda>freq.
         Inr \<lparr>con_sig1 = (sp1 \<inter> sp2) \<union> (sn1 \<inter> sn2),
              con_nsig1 = (sp1 \<inter> nsp2) \<union> (sn1 \<inter> nsn2),
              ncon_sig1 = (sp1 \<inter> sn2) \<union> (sn1 \<inter> sp2),
              ncon_nsig1 = (sp1 \<inter> nsn2) \<union> (sn1 \<inter> nsp2),
              con_sig2 = (sp1 \<inter> sp2) \<union> (sn1 \<inter> sn2),
              con_nsig2 = (nsp1 \<inter> sp2) \<union> (nsn1 \<inter> sn2),
              ncon_sig2 = (sp1 \<inter> sn2) \<union> (sn1 \<inter> sp2),
              ncon_nsig2 = (nsp1 \<inter> sn2) \<union> (nsn1 \<inter> sp2),
              bkgd_freq = freq\<rparr>))"

text \<open>Lines 671-672: the two operands of the inverse Jaccard index.\<close>

definition intersection_ab :: "joined \<Rightarrow> real" where
  "intersection_ab df3 =
     1 * real (card (df1_sp df3 \<inter> df2_sp df3)) + real (card (df1_sn df3 \<inter> df2_sn df3))"

definition union_ab :: "joined \<Rightarrow> real" where
  "union_ab df3 = real (num_sig df3)"

text \<open>
  What one pass of the loop body stores for the pair (lines 597-674), in the order of
  the source: the row selections of the correlations, the sign columns, the counts, the
  relative concordance (a Python division), the concordance sets, the inverse Jaccard
  index (a Python division). The expression ratios \<open>r1\<close>, \<open>r2\<close> (their divisor is a
  count plus one) and the drawing and reporting calls that follow are left out.
\<close>

record pair_scores =
  high_sel :: joined
  onedeg_sel :: joined
  bitfc_col :: "cell list"
  bitfc1st_col :: "cell list"
  diff_count :: nat
  all_conc :: nat
  goodenough :: nat
  rel_conc :: real
  concordance_sets :: concordance
  ijidx :: real

definition analyse_pair :: "real \<Rightarrow> joined \<Rightarrow> error + pair_scores" where
  "analyse_pair threshold df3 =
     bind_err (py_div (1 * real (num_close df3)) (real (num_sig df3))) (\<lambda>rel.
     bind_err (concordancecounts (df1_sp df3) (df2_sp df3) (df1_sn df3) (df2_sn df3)
                 (df1_nsp df3) (df2_nsp df3) (df1_nsn df3) (df2_nsn df3)) (\<lambda>sets.
     bind_err (py_div (union_ab df3) (union_ab df3 - intersection_ab df3)) (\<lambda>ij.
     Inr \<lparr>high_sel = high_rows threshold df3,
          onedeg_sel = onedeg_rows df3,
          bitfc_col = map (\<lambda>(g, r). bitfc (logfc2 r)) df3,
          bitfc1st_col = map (\<lambda>(g, r). bitfc (logfc1st r)) df3,
          diff_count = hsize threshold df3,
          all_conc = num_concord df3,
          goodenough = num_close df3,
          rel_conc = rel,
          concordance_sets = sets,
          ijidx = ij\<rparr>)))"

section \<open>Pairwise mode: \<open>pairwise_comparisons\<close>\<close>

text \<open>The file system maps a file name to its content; \<open>open\<close> raises IOError on a
  name that has none.\<close>

type_synonym filesystem = "string \<Rightarrow> textfile option"

definition open_file :: "filesystem \<Rightarrow> string \<Rightarrow> error + textfile" where
  "open_file fs name = (case fs name of None \<Rightarrow> Inl IOError | Some content \<Rightarrow> Inr content)"

text \<open>Lines 569-592: the joined table of one ordered pair of experiments.\<close>

definition joined_pair ::
    "pyfloat \<Rightarrow> filesystem \<Rightarrow> string dict \<Rightarrow> string option \<Rightarrow> bool \<Rightarrow> string \<Rightarrow> string \<Rightarrow>
     error + joined" where
  "joined_pair float_of fs orthodic calibrate drop_nas exp1 exp2 =
     bind_err (open_file fs exp1) (\<lambda>file1.
     bind_err (translate_to_orthologs float_of file1 orthodic None False) (\<lambda>t1.
     bind_err (open_file fs exp2) (\<lambda>file2.
     bind_err (translate_to_orthologs float_of file2 orthodic None False) (\<lambda>t2.
     bind_err (calibrate_frame calibrate t1) (\<lambda>df1.
     bind_err (calibrate_frame calibrate t2) (\<lambda>df2.
     Inr (if drop_nas then dropna (join_left df1 df2) else join_left df1 df2)))))))"

definition compare_pair ::
    "pyfloat \<Rightarrow> filesystem \<Rightarrow> string dict \<Rightarrow> real \<Rightarrow> string option \<Rightarrow> bool \<Rightarrow> string \<Rightarrow> string \<Rightarrow>
     error + pair_scores" where
  "compare_pair float_of fs orthodic threshold calibrate drop_nas exp1 exp2 =
     bind_err (joined_pair float_of fs orthodic calibrate drop_nas exp1 exp2)
       (analyse_pair threshold)"

text \<open>
  The loop over \<open>itertools.product(experiments, experiments)\<close>: a pair of equal names is
  skipped, any other pair appends its \<open>concordance_sets[0]\<close> to
  \<open>concordant_sig_genesets\<close>.
\<close>

fun pairwise_loop ::
    "(string \<Rightarrow> string \<Rightarrow> error + pair_scores) \<Rightarrow> (string \<times> string) list \<Rightarrow>
     string set list \<Rightarrow> error + string set list" where
  "pairwise_loop cmp [] genesets = Inr genesets"
| "pairwise_loop cmp ((exp1, exp2) # rest) genesets =
     (if exp1 = exp2 then pairwise_loop cmp rest genesets
      else (case cmp exp1 exp2 of
              Inl e \<Rightarrow> Inl e
            | Inr scores \<Rightarrow>
                pairwise_loop cmp rest (genesets @ [con_sig1 (concordance_sets scores)])))"

text \<open>Line 724: \<open>set.intersection(*concordant_sig_genesets)\<close> raises TypeError on an
  empty list. The dendrogram calls between it and the \<open>return\<close> are left out.\<close>

definition pairwise_comparisons ::
    "pyfloat \<Rightarrow> filesystem \<Rightarrow> string list \<Rightarrow> string dict \<Rightarrow> real \<Rightarrow> string option \<Rightarrow> bool \<Rightarrow>
     error + string set" where
  "pairwise_comparisons float_of fs experiments orthodic threshold calibrate drop_nas =
     bind_err (pairwise_loop (compare_pair float_of fs orthodic threshold calibrate drop_nas)
                 (List.product experiments experiments) [])
       (\<lambda>concordant_sig_genesets.
          if concordant_sig_genesets = [] then Inl TypeError
          else Inr (\<Inter> (set concordant_sig_genesets)))"

section \<open>Global mode: \<open>global_comparisons\<close>\<close>

text \<open>
  A row of the wide table \<open>dfall\<close> holds one \<open>deg\<close> per experiment: position 0 is the
  columns \<open>padj\<close>, \<open>logfc\<close>, \<open>basemean\<close>, position \<open>i\<close> the columns \<open>padj_i\<close>, \<open>logfc_i\<close>,
  \<open>basemean_i\<close>. Each reduction starts from position 0 and folds the positions
  \<open>range(1, len(experiments))\<close> into it, as the loops of lines 817-879 do.
\<close>

type_synonym wide = "deg list dict"

definition sig_all :: "nat \<Rightarrow> deg list \<Rightarrow> bool" where
  "sig_all n r =
     foldl (\<lambda>sig i. (cle (padj (r ! i)) 0.05 \<or> isnull (padj (r ! i))) \<and> sig)
       (cle (padj (r ! 0)) 0.05 \<or> isnull (padj (r ! 0))) [1..<n]"

definition neg_all :: "nat \<Rightarrow> deg list \<Rightarrow> bool" where
  "neg_all n r =
     foldl (\<lambda>neg i. (clt (logfc (r ! i)) 0 \<or> isnull (logfc (r ! i))) \<and> neg)
       (clt (logfc (r ! 0)) 0 \<or> isnull (logfc (r ! 0))) [1..<n]"

definition pos_all :: "nat \<Rightarrow> deg list \<Rightarrow> bool" where
  "pos_all n r =
     foldl (\<lambda>pos i. (cgt (logfc (r ! i)) 0 \<or> isnull (logfc (r ! i))) \<and> pos)
       (cgt (logfc (r ! 0)) 0 \<or> isnull (logfc (r ! 0))) [1..<n]"

definition sig_alo :: "nat \<Rightarrow> deg list \<Rightarrow> bool" where
  "sig_alo n r = foldl (\<lambda>sig i. cle (padj (r ! i)) 0.05 \<or> sig) (cle (padj (r ! 0)) 0.05) [1..<n]"

definition neg_alo :: "nat \<Rightarrow> deg list \<Rightarrow> bool" where
  "neg_alo n r = foldl (\<lambda>neg i. clt (logfc (r ! i)) 0 \<or> neg) (clt (logfc (r ! 0)) 0) [1..<n]"

definition pos_alo :: "nat \<Rightarrow> deg list \<Rightarrow> bool" where
  "pos_alo n r = foldl (\<lambda>pos i. cgt (logfc (r ! i)) 0 \<or> pos) (cgt (logfc (r ! 0)) 0) [1..<n]"

definition concordant :: "nat \<Rightarrow> deg list \<Rightarrow> bool" where
  "concordant n r = (pos_all n r \<or> neg_all n r)"

definition bigchange_alo :: "real \<Rightarrow> nat \<Rightarrow> deg list \<Rightarrow> bool" where
  "bigchange_alo threshold n r =
     foldl (\<lambda>big i. cge (logfc (r ! i)) threshold \<or> cle (logfc (r ! i)) (- threshold) \<or> big)
       (cge (logfc (r ! 0)) threshold \<or> cle (logfc (r ! 0)) (- threshold)) [1..<n]"

definition bigchange :: "real \<Rightarrow> nat \<Rightarrow> deg list \<Rightarrow> bool" where
  "bigchange threshold n r =
     foldl (\<lambda>big i. (cge (logfc (r ! i)) threshold \<or> cle (logfc (r ! i)) (- threshold) \<or>
                      isnull (logfc (r ! i))) \<and> big)
       (cge (logfc (r ! 0)) threshold \<or> cle (logfc (r ! 0)) (- threshold) \<or>
        isnull (logfc (r ! 0))) [1..<n]"

text \<open>Lines 813-815: \<open>missing\<close> is the number of null cells of the row divided by 3.\<close>

definition null_cells :: "deg list \<Rightarrow> nat" where
  "null_cells r = length (filter isnull (concat (map (\<lambda>d. [padj d, logfc d, basemean d]) r)))"

definition missing :: "deg list \<Rightarrow> real" where
  "missing r = real (null_cells r) / 3"

definition enough :: "nat \<Rightarrow> deg list \<Rightarrow> bool" where
  "enough n r = (missing r < real_of_int (int n - 1))"

text \<open>
  The results table (lines 881-899) as counts of rows, and the returned list of groups
  (line 941). A column label \<open>padj_i\<close> that the table does not have raises KeyError; the
  drawing of the correlation tree is left out.
\<close>

definition count_rows :: "(deg list \<Rightarrow> bool) \<Rightarrow> wide \<Rightarrow> nat" where
  "count_rows cond dfall = length (filter (\<lambda>(g, r). cond r) dfall)"

record global_result =
  missing_total :: real
  enough_total :: nat
  table_alo :: "(string \<times> nat) list"
  table_all :: "(string \<times> nat) list"
  orthologs_found :: "string list"

definition global_comparisons :: "wide \<Rightarrow> nat \<Rightarrow> real \<Rightarrow> error + global_result" where
  "global_comparisons dfall n threshold =
     (if list_all (\<lambda>(g, r). 0 < length r \<and> n \<le> length r) dfall then
        Inr \<lparr>missing_total = sum_list (map (\<lambda>(g, r). missing r) dfall),
             enough_total = count_rows (enough n) dfall,
             table_alo =
               [(''positive'', count_rows (pos_alo n) dfall),
                (''negative'', count_rows (neg_alo n) dfall),
                (''significant'', count_rows (sig_alo n) dfall),
                (''fold diff'', count_rows (bigchange_alo threshold n) dfall)],
             table_all =
               [(''positive'', count_rows (\<lambda>r. enough n r \<and> pos_all n r) dfall),
                (''negative'', count_rows (\<lambda>r. enough n r \<and> neg_all n r) dfall),
                (''concordant'', count_rows (\<lambda>r. enough n r \<and> concordant n r) dfall),
                (''positive and sig'',
                   count_rows (\<lambda>r. sig_all n r \<and> enough n r \<and> pos_all n r) dfall),
                (''negative and sig'',
                   count_rows (\<lambda>r. sig_all n r \<and> enough n r \<and> neg_all n r) dfall),
                (''sig and conc'',
                   count_rows (\<lambda>r. concordant n r \<and> enough n r \<and> sig_all n r) dfall),
                (''significant'', count_rows (\<lambda>r. enough n r \<and> sig_all n r) dfall),
                (''fold diff'', count_rows (\<lambda>r. enough n r \<and> bigchange threshold n r) dfall),
                (''positive and large'',
                   count_rows (\<lambda>r. bigchange threshold n r \<and> enough n r \<and> pos_all n r) dfall),
                (''negative and large'',
                   count_rows (\<lambda>r. bigchange threshold n r \<and> enough n r \<and> neg_all n r) dfall),
                (''concordant and large'',
                   count_rows (\<lambda>r. bigchange threshold n r \<and> enough n r \<and> concordant n r) dfall)],
             orthologs_found =
               map fst (filter (\<lambda>(g, r). concordant n r \<and> sig_all n r \<and> enough n r) dfall)\<rparr>
      else Inl KeyError)"

section \<open>Enrichment: the report of \<open>enrichment\<close>\<close>

text \<open>
  A \<open>Fisher_square\<close> with the fields the report reads. The exact test
  (\<open>s.fisher_test()\<close>, which sets \<open>s.p\<close>) and the correction \<open>p_to_q\<close>, which returns a
  dictionary from p-values to q-values, belong to the \<open>genomepy\<close> package and are
  parameters: \<open>fisher_test s\<close> is the value of \<open>s.p\<close> after the test.
\<close>

record fisher_square =
  TwG :: int
  TwoG :: int
  NwG :: int
  NwoG :: int
  sq_id :: string
  id_info :: string

datatype finding =
  With_FDR fisher_square real
| FDR_not_determined fisher_square real

text \<open>Lines 507-514, for one square: what is written to the log.\<close>

definition report_square :: "(real \<Rightarrow> real option) \<Rightarrow> (fisher_square \<Rightarrow> real) \<Rightarrow> fisher_square \<Rightarrow>
    finding list" where
  "report_square fdr fisher_test s =
     (case fdr (fisher_test s) of
        Some q \<Rightarrow> if q \<le> 0.05 \<and> TwG s > 1 then [With_FDR s q] else []
      | None \<Rightarrow>
          if fisher_test s \<le> 0.05 \<and> TwG s > 1
          then [FDR_not_determined s (fisher_test s)] else [])"

text \<open>Lines 501-514: the tests, the correction over all p-values, the report.\<close>

definition enrichment_report ::
    "(fisher_square \<Rightarrow> real) \<Rightarrow> (real list \<Rightarrow> real \<Rightarrow> real option) \<Rightarrow> fisher_square list \<Rightarrow>
     finding list" where
  "enrichment_report fisher_test p_to_q fs =
     (let pvals = map fisher_test fs;
          fdr = p_to_q pvals
      in concat (map (report_square fdr fisher_test) fs))"

section \<open>The main program up to the analyses\<close>

text \<open>\<open>s.split(',')\<close>; the second argument is the field read so far.\<close>

fun split_on :: "char \<Rightarrow> string \<Rightarrow> string \<Rightarrow> string list" where
  "split_on sep cur [] = [cur]"
| "split_on sep cur (c # cs) =
     (if c = sep then cur # split_on sep [] cs else split_on sep (cur @ [c]) cs)"

text \<open>The command-line arguments that lines 952-984 and 1033-1035 read.\<close>

record args =
  args_experiments :: "string list"
  args_orthologs :: string
  args_mustcontain :: "string option"
  args_exclude :: "string option"
  args_manage_duplicates :: bool

text \<open>\<open>if args.exclude:\<close> holds for a string that is given and not empty.\<close>

definition species_list :: "string option \<Rightarrow> string list option" where
  "species_list a =
     (case a of
        None \<Rightarrow> None
      | Some s \<Rightarrow> if s = [] then None else Some (split_on (CHR '','') [] s))"

text \<open>
  What the program does, in order: the messages it writes and the files it opens. The
  outcome is \<open>sys.exit\<close> with a status, an uncaught exception, or the entry into the
  branch \<open>len(args.experiments) > 1\<close> with the index built.
\<close>

datatype event =
  Could_not_be_found string
| Finding_all_orthologs "string list"
| Not_worrying_about "string list"
| Open_orthology_file string
| Genes_indexed nat nat
| Insufficient_files

datatype outcome =
  Exit int
| Uncaught error
| Analyses "string dict" "string list dict"

definition announce :: "args \<Rightarrow> event list" where
  "announce a =
     (case species_list (args_mustcontain a) of
        None \<Rightarrow> [] | Some ws \<Rightarrow> [Finding_all_orthologs ws]) @
     (case species_list (args_exclude a) of
        None \<Rightarrow> [] | Some xs \<Rightarrow> [Not_worrying_about xs])"

definition main :: "filesystem \<Rightarrow> args \<Rightarrow> event list \<times> outcome" where
  "main fs a =
     (let not_found = filter (\<lambda>f. fs f = None) (args_experiments a) in
      if not_found \<noteq> [] then (map Could_not_be_found not_found, Exit 1)
      else
        (let exclusions = species_list (args_exclude a);
             necessary = species_list (args_mustcontain a);
             opened = announce a @ [Open_orthology_file (args_orthologs a)]
         in case bind_err (open_file fs (args_orthologs a))
                   (\<lambda>orthofile. fetch_orthologs orthofile necessary exclusions
                                  (args_manage_duplicates a)) of
              Inl e \<Rightarrow> (opened, Uncaught e)
            | Inr (orthodic, ortho_idx) \<Rightarrow>
                (let indexed = opened @ [Genes_indexed (length orthodic) (length ortho_idx)]
                 in if length (args_experiments a) > 1
                    then (indexed, Analyses orthodic ortho_idx)
                    else (indexed @ [Insufficient_files], Exit 1))))"

section \<open>Example inputs\<close>

text \<open>
  The header line of a DESeq2 table has six names, one fewer than the data lines, which
  start with the gene identifier. Two ortholog groups follow the scenario of the
  specification (\<open>G1\<close> with \<open>AAAA|1\<close> and \<open>BBBB|1\<close>); a third one has an unparsable
  fold change in the first experiment and is significant in neither.
\<close>

definition deseq_header :: "string list" where
  "deseq_header = [''baseMean'', ''log2FoldChange'', ''lfcSE'', ''stat'', ''pvalue'', ''padj'']"

definition example_orthodic :: "string dict" where
  "example_orthodic =
     [(''G1'', ''G1''), (''AAAA|1'', ''G1''), (''BBBB|1'', ''G1''),
      (''G2'', ''G2''), (''AAAA|2'', ''G2''), (''BBBB|2'', ''G2''),
      (''G3'', ''G3''), (''AAAA|3'', ''G3''), (''BBBB|3'', ''G3'')]"

definition example_fs :: filesystem where
  "example_fs = map_of
     [(''a.txt'',
         [deseq_header,
          [''AAAA|1'', ''10'', ''1.5'', ''0.2'', ''7.5'', ''0.001'', ''0.01''],
          [''AAAA|2'', ''12'', ''2.0'', ''0.2'', ''10'', ''0.001'', ''0.01''],
          [''AAAA|3'', ''15'', ''NA'', ''NA'', ''NA'', ''0.2'', ''0.3'']]),
      (''b.txt'',
         [deseq_header,
          [''BBBB|1'', ''20'', ''2.0'', ''0.2'', ''10'', ''0.001'', ''0.02''],
          [''BBBB|2'', ''22'', ''-1.0'', ''0.2'', ''-5'', ''0.002'', ''0.03''],
          [''BBBB|3'', ''25'', ''0.7'', ''0.5'', ''1.4'', ''0.2'', ''0.3'']]),
      (''groups.txt'',
         [[''G1'', ''AAAA|1'', ''BBBB|1''],
          [''G2'', ''AAAA|2'', ''BBBB|2''],
          [''G3'', ''AAAA|3'', ''BBBB|3'']])]"

text \<open>The scenario of the specification alone: one group, significant and positive in
  both experiments.\<close>

definition scenario_fs :: filesystem where
  "scenario_fs = map_of
     [(''a.txt'',
         [deseq_header, [''AAAA|1'', ''10'', ''1.5'', ''0.2'', ''7.5'', ''0.001'', ''0.01'']]),
      (''b.txt'',
         [deseq_header, [''BBBB|1'', ''20'', ''2.0'', ''0.2'', ''10'', ''0.001'', ''0.02'']])]"

text \<open>The joined tables of the pair \<open>a.txt\<close>, \<open>b.txt\<close> under the two file systems, and
  of the pair in the other order.\<close>

definition example_joined :: joined where
  "example_joined =
     [(''G1'', (\<lparr>padj = Some 0.01, logfc = Some 1.5, basemean = Some 10\<rparr>,
                \<lparr>padj = Some 0.02, logfc = Some 2, basemean = Some 20\<rparr>)),
      (''G2'', (\<lparr>padj = Some 0.01, logfc = Some 2, basemean = Some 12\<rparr>,
                \<lparr>padj = Some 0.03, logfc = Some (- 1), basemean = Some 22\<rparr>)),
      (''G3'', (\<lparr>padj = Some 0.3, logfc = Some 0, basemean = Some 15\<rparr>,
                \<lparr>padj = Some 0.3, logfc = Some 0.7, basemean = Some 25\<rparr>))]"

definition example_joined_rev :: joined where
  "example_joined_rev = map (\<lambda>(g, r). (g, (snd r, fst r))) example_joined"

definition scenario_joined :: joined where
  "scenario_joined =
     [(''G1'', (\<lparr>padj = Some 0.01, logfc = Some 1.5, basemean = Some 10\<rparr>,
                \<lparr>padj = Some 0.02, logfc = Some 2, basemean = Some 20\<rparr>))]"

text \<open>An orthology file with a group that holds two genes of one species, and an
  experiment that reports both genes.\<close>

definition duplicate_orthofile :: textfile where
  "duplicate_orthofile = [[''G4'', ''AAAA|4'', ''AAAA|5'', ''BBBB|4'']]"

definition duplicate_degfile :: textfile where
  "duplicate_degfile =
     [deseq_header,
      [''AAAA|4'', ''10'', ''1.5'', ''0.2'', ''7.5'', ''0.001'', ''0.01''],
      [''AAAA|5'', ''11'', ''-0.5'', ''0.4'', ''-1.2'', ''0.1'', ''0.2'']]"

text \<open>Command lines: no experiment, one experiment, and two of which one is not a
  file. The species \<open>CCCC\<close> is excluded, so the index is built.\<close>

definition no_experiment_args :: args where
  "no_experiment_args =
     \<lparr>args_experiments = [], args_orthologs = ''groups.txt'', args_mustcontain = None,
      args_exclude = Some ''CCCC'', args_manage_duplicates = False\<rparr>"

definition one_experiment_args :: args where
  "one_experiment_args = no_experiment_args\<lparr>args_experiments := [''a.txt'']\<rparr>"

definition missing_file_args :: args where
  "missing_file_args = no_experiment_args\<lparr>args_experiments := [''a.txt'', ''c.txt'']\<rparr>"

text \<open>Rows of a wide table over two experiments: the second experiment has no data for
  the group; neither has.\<close>

definition half_null_row :: "deg list" where
  "half_null_row = [\<lparr>padj = Some 0.01, logfc = Some 2, basemean = Some 10\<rparr>, nan_deg]"

definition all_null_row :: "deg list" where
  "all_null_row = [nan_deg, nan_deg]"

text \<open>
  Squares after the exact test, with stand-ins for the two \<open>genomepy\<close> functions: the
  test gives the first domain the p-value 0.001 and any other 0.2; one correction
  leaves every p-value as it is, the other determines no q-value.
\<close>

definition single_gene_square :: fisher_square where
  "single_gene_square =
     \<lparr>TwG = 1, TwoG = 2, NwG = 0, NwoG = 97, sq_id = ''PF00001'', id_info = ''PF00001 (7tm_1)''\<rparr>"

definition strong_square :: fisher_square where
  "strong_square = single_gene_square\<lparr>TwG := 3, TwoG := 0\<rparr>"

definition weak_square :: fisher_square where
  "weak_square =
     \<lparr>TwG = 3, TwoG = 0, NwG = 50, NwoG = 47, sq_id = ''PF00002'', id_info = ''PF00002 (7tm_2)''\<rparr>"

definition example_test :: "fisher_square \<Rightarrow> real" where
  "example_test s = (if sq_id s = ''PF00001'' then 0.001 else 0.2)"

definition identity_correction :: "real list \<Rightarrow> real \<Rightarrow> real option" where
  "identity_correction pvals = map_of (zip pvals pvals)"

definition no_correction :: "real list \<Rightarrow> real \<Rightarrow> real option" where
  "no_correction pvals = Map.empty"

section \<open>Evaluation rules\<close>

lemmas float_eval = float_decimal_def unsigned_decimal_def digit_vals_def

lemmas translate_eval = translate_to_orthologs_def bind_err_def calibrate_frame_def
  parse_padj_def parse_default_def float_eval

lemmas cell_eval = cle_def clt_def cgt_def cge_def isnull_def

lemmas set_eval = df1_sp_def df2_sp_def df1_sn_def df2_sn_def df1_nsp_def df2_nsp_def
  df1_nsn_def df2_nsn_def index_set_def select_def padj1st_def padj2_def logfc1st_def
  logfc2_def cell_eval

lemmas analyse_eval = bind_err_def analyse_pair_def py_div_def concordancecounts_def
  union_ab_def intersection_ab_def num_sig_def num_close_def num_concord_def hsize_def
  high_rows_def onedeg_rows_def abs_ge_def bitfc_def set_eval

lemmas joined_eval = joined_pair_def open_file_def translate_eval join_left_def dropna_def
  has_na_def isnull_def

lemmas example_eval = example_fs_def example_orthodic_def scenario_fs_def deseq_header_def
  example_joined_def example_joined_rev_def scenario_joined_def duplicate_orthofile_def
  duplicate_degfile_def

lemmas args_eval = no_experiment_args_def one_experiment_args_def missing_file_args_def
  species_list_def announce_def

lemmas square_eval = single_gene_square_def strong_square_def weak_square_def example_test_def
  identity_correction_def no_correction_def enrichment_report_def report_square_def

lemma example_joined_ab:
  "joined_pair float_decimal example_fs example_orthodic None True ''a.txt'' ''b.txt'' =
     Inr example_joined"
  by (simp add: joined_eval example_eval)

lemma example_joined_ba:
  "joined_pair float_decimal example_fs example_orthodic None True ''b.txt'' ''a.txt'' =
     Inr example_joined_rev"
  by (simp add: joined_eval example_eval)

lemma scenario_joined_ab:
  "joined_pair float_decimal scenario_fs example_orthodic None True ''a.txt'' ''b.txt'' =
     Inr scenario_joined"
  by (simp add: joined_eval example_eval)

section \<open>Properties of the ortholog index\<close>

lemma count_species_None:
  "cols \<noteq> [] \<Longrightarrow> count_species False None cols counts = Inl TypeError"
  by (cases cols) simp_all

lemma fetch_lines_None_first:
  "cols \<noteq> [] \<Longrightarrow>
   fetch_lines mustcontain None False (cols # rest) (d, i) = Inl TypeError"
  by (simp add: count_species_None)

text \<open>
  C9. The claim: building the index with \<open>exclude = None\<close> and \<open>duplicates\<close> false
  returns an index, the ignorable set being read as empty. The code: on the one-line
  orthology file \<open>G1 AAAA|1 BBBB|1\<close> the test \<open>spec in exclude\<close> raises TypeError at the
  first column, and no index is returned.
\<close>

theorem fetch_orthologs_exclude_None_raises:
  "fetch_orthologs [[''G1'', ''AAAA|1'', ''BBBB|1'']] None None False = Inl TypeError"
  by (simp add: fetch_orthologs_def species_def)

section \<open>Properties of the translation\<close>

lemma translate_lines_append:
  "translate_lines float_of orthodic (xs @ ys) d =
     bind_err (translate_lines float_of orthodic xs d) (translate_lines float_of orthodic ys)"
  by (induction xs arbitrary: d) (auto simp: bind_err_def split: option.splits sum.splits)

text \<open>The last data line of a file decides the row of its group: whatever an earlier
  line stored for the group is overwritten.\<close>

lemma translate_last_row:
  assumes "length cols = 7" and "cols ! 0 \<noteq> ''baseMean''"
    and "map_of orthodic (cols ! 0) = Some grp"
    and "translate_lines float_of orthodic pre [] = Inr d"
  shows "translate_to_orthologs float_of (pre @ [cols]) orthodic None False =
           (case parse_padj float_of cols of
              Inl e \<Rightarrow> Inl e
            | Inr p \<Rightarrow> Inr (AList.update grp
                 \<lparr>padj = p, logfc = parse_default float_of (cols ! 2),
                  basemean = parse_default float_of (cols ! 1)\<rparr> d))"
  using assms
  by (simp add: translate_to_orthologs_def translate_lines_append bind_err_def calibrate_frame_def
      split: sum.splits)

text \<open>
  C2. The claim: without \<open>duplicates\<close> a later row of a group overwrites the earlier one;
  with \<open>duplicates\<close> a group to which more than one row contributed is absent from the
  table. The code: the index built with \<open>duplicates = True\<close> from the group
  \<open>G4 = AAAA|4 AAAA|5 BBBB|4\<close> maps both genes of species \<open>AAAA\<close> to \<open>G4\<close>; the
  experiment reports both; the second row has overwritten the first in \<open>degdic\<close> before
  the frame is built, so \<open>drop_duplicates\<close> sees one row for \<open>G4\<close> and keeps it.
\<close>

theorem translate_duplicates_keeps_group:
  "bind_err (fetch_orthologs duplicate_orthofile None None True)
     (\<lambda>(orthodic, ortho_idx).
        translate_to_orthologs float_decimal duplicate_degfile orthodic None True) =
   Inr [(''G4'', \<lparr>padj = Some 0.2, logfc = Some (- 0.5), basemean = Some 11\<rparr>)]"
  by (simp add: fetch_orthologs_def species_def group_accepted_def whitelist_of_def
      add_group_def translate_eval drop_duplicates_keep_False_def example_eval)

text \<open>The loop raises nothing but ValueError; whether it raises does not depend on the
  dictionary it starts from; it keeps the keys of the dictionary distinct; and lines that
  are not data lines of a group leave the row of that group as it is.\<close>

lemma translate_lines_error:
  "translate_lines float_of orthodic ls d = Inl e \<Longrightarrow> e = ValueError"
proof (induction ls arbitrary: d)
  case Nil
  then show ?case by simp
next
  case (Cons cols rest)
  then show ?case
    by (auto simp: parse_padj_def split: if_splits option.splits sum.splits)
qed

lemma translate_lines_returns:
  "translate_lines float_of orthodic ls d = Inr d1 \<Longrightarrow>
   \<exists>d2. translate_lines float_of orthodic ls d' = Inr d2"
proof (induction ls arbitrary: d d')
  case Nil
  then show ?case by simp
next
  case (Cons cols rest)
  then show ?case
    by (auto split: if_splits option.splits sum.splits)
qed

lemma translate_lines_distinct:
  "translate_lines float_of orthodic ls d = Inr d1 \<Longrightarrow> distinct (map fst d) \<Longrightarrow>
   distinct (map fst d1)"
proof (induction ls arbitrary: d)
  case Nil
  then show ?case by simp
next
  case (Cons cols rest)
  then show ?case
    by (auto simp: distinct_update split: if_splits option.splits sum.splits)
qed

lemma translate_lines_keeps:
  "list_all (\<lambda>l. \<not> (length l = 7 \<and> l ! 0 \<noteq> ''baseMean'' \<and> map_of orthodic (l ! 0) = Some grp)) ls \<Longrightarrow>
   translate_lines float_of orthodic ls d = Inr d1 \<Longrightarrow> map_of d1 grp = map_of d grp"
proof (induction ls arbitrary: d)
  case Nil
  then show ?case by simp
next
  case (Cons cols rest)
  then show ?case
    by (auto simp: update_conv' split: if_splits option.splits sum.splits)
qed

lemma calibrate_frame_padj:
  "calibrate_frame calibrate df = Inr df' \<Longrightarrow>
   map_option padj (map_of df' g) = map_option padj (map_of df g)"
  by (auto simp: calibrate_frame_def flip_logfc_def map_of_map option.map_comp comp_def
      split: option.splits if_splits)

lemma calibrate_frame_keys:
  "calibrate_frame calibrate df = Inr df' \<Longrightarrow> map fst df' = map fst df"
  by (auto simp: calibrate_frame_def flip_logfc_def comp_def case_prod_unfold
      split: option.splits if_splits)

lemma drop_duplicates_row:
  "distinct (map fst df) \<Longrightarrow> map_of (drop_duplicates_keep_False df) g = Some r \<Longrightarrow>
   map_of df g = Some r"
  unfolding drop_duplicates_keep_False_def
  by (metis (no_types, lifting) map_of_SomeD map_of_is_SomeI mem_Collect_eq set_filter)


lemma translate_data_line:
  assumes "length cols = 7" and "cols ! 0 \<noteq> ''baseMean''"
    and "map_of orthodic (cols ! 0) = Some grp"
  shows "translate_lines float_of orthodic (cols # post) d =
           (case parse_padj float_of cols of
              Inl e \<Rightarrow> Inl e
            | Inr p \<Rightarrow> translate_lines float_of orthodic post
                 (AList.update grp
                   \<lparr>padj = p, logfc = parse_default float_of (cols ! 2),
                    basemean = parse_default float_of (cols ! 1)\<rparr> d))"
  using assms by (simp split: sum.splits)

text \<open>
  C3, as the code has it. Take any data line of an experiment file (seven columns, not
  the header, its gene in the index) after which the file has no further data line of
  the same group, and let the expected value be: the value of column 6 when it parses;
  otherwise 1 when column 5 is \<open>NA\<close>; otherwise 0.05 when column 5 parses to a number
  below 0.05 and 1 when it parses to anything else (NaN included); and ValueError when
  column 5 is neither \<open>NA\<close> nor parsable. Then, for every calibration group and either
  duplicate policy: when ValueError is expected the translation raises it; when a
  value is expected, every returned table that has a row for the group holds that
  value as its adjusted p-value; and when the other lines raise nothing, the
  translation as the pairwise mode calls it returns a table with that value for the
  group.
\<close>

theorem padj_fallback_chain:
  assumes "length cols = 7" and "cols ! 0 \<noteq> ''baseMean''"
    and "map_of orthodic (cols ! 0) = Some grp"
    and "list_all (\<lambda>l. \<not> (length l = 7 \<and> l ! 0 \<noteq> ''baseMean'' \<and>
                            map_of orthodic (l ! 0) = Some grp)) post"
  shows "let expected =
           (case float_of (cols ! 6) of
              Some v \<Rightarrow> Inr v
            | None \<Rightarrow>
                if cols ! 5 = ''NA'' then Inr (Some 1)
                else (case float_of (cols ! 5) of
                        None \<Rightarrow> Inl ValueError
                      | Some None \<Rightarrow> Inr (Some 1)
                      | Some (Some x) \<Rightarrow> if x < 0.05 then Inr (Some 0.05) else Inr (Some 1)))
         in (\<forall>e. expected = Inl e \<longrightarrow>
               translate_to_orthologs float_of (pre @ cols # post) orthodic calibrate duplicates =
                 Inl e) \<and>
            (\<forall>v t r. expected = Inr v \<longrightarrow>
               translate_to_orthologs float_of (pre @ cols # post) orthodic calibrate duplicates =
                 Inr t \<longrightarrow>
               map_of t grp = Some r \<longrightarrow> padj r = v) \<and>
            (\<forall>v d dp. expected = Inr v \<longrightarrow>
               translate_lines float_of orthodic pre [] = Inr d \<longrightarrow>
               translate_lines float_of orthodic post [] = Inr dp \<longrightarrow>
               padj_of (translate_to_orthologs float_of (pre @ cols # post) orthodic None False) grp =
                 Inr (Some v))"
proof -
  let ?row = "\<lambda>p. \<lparr>padj = p, logfc = parse_default float_of (cols ! 2),
                    basemean = parse_default float_of (cols ! 1)\<rparr>"
  let ?lines = "translate_lines float_of orthodic"
  have chain: "parse_padj float_of cols =
           (case float_of (cols ! 6) of
              Some v \<Rightarrow> Inr v
            | None \<Rightarrow>
                if cols ! 5 = ''NA'' then Inr (Some 1)
                else (case float_of (cols ! 5) of
                        None \<Rightarrow> Inl ValueError
                      | Some None \<Rightarrow> Inr (Some 1)
                      | Some (Some x) \<Rightarrow> if x < 0.05 then Inr (Some 0.05) else Inr (Some 1)))"
    by (simp add: parse_padj_def clt_def split: option.splits)
  have whole: "?lines (pre @ cols # post) [] =
      bind_err (?lines pre []) (\<lambda>d.
        case parse_padj float_of cols of
          Inl e \<Rightarrow> Inl e
        | Inr p \<Rightarrow> ?lines post (AList.update grp (?row p) d))"
  proof -
    have "?lines (cols # post) =
        (\<lambda>d. case parse_padj float_of cols of
                Inl e \<Rightarrow> Inl e
              | Inr p \<Rightarrow> ?lines post (AList.update grp (?row p) d))"
      by (rule ext) (rule translate_data_line [OF assms(1-3)])
    then show ?thesis
      unfolding translate_lines_append by (rule arg_cong)
  qed
  have raise: "translate_to_orthologs float_of (pre @ cols # post) orthodic calibrate duplicates = Inl e"
    if "parse_padj float_of cols = Inl e" for e
  proof -
    from that have e: "e = ValueError"
      by (auto simp: parse_padj_def split: option.splits if_splits)
    have "?lines (pre @ cols # post) [] = Inl ValueError"
    proof (cases "?lines pre []")
      case (Inl e')
      with translate_lines_error [OF Inl] whole show ?thesis
        by (simp add: bind_err_def)
    next
      case (Inr d)
      with whole that e show ?thesis
        by (simp add: bind_err_def)
    qed
    with e show ?thesis
      by (simp add: translate_to_orthologs_def bind_err_def)
  qed
  have lines_row: "map_of degdic grp = Some (?row v) \<and> distinct (map fst degdic)"
    if v: "parse_padj float_of cols = Inr v" and run: "?lines (pre @ cols # post) [] = Inr degdic"
    for v degdic
  proof -
    from run whole obtain d where d: "?lines pre [] = Inr d"
      by (cases "?lines pre []") (auto simp: bind_err_def)
    with run whole v have post: "?lines post (AList.update grp (?row v) d) = Inr degdic"
      by (simp add: bind_err_def)
    from translate_lines_distinct [OF d] have "distinct (map fst d)" by simp
    then have "distinct (map fst (AList.update grp (?row v) d))"
      by (rule distinct_update)
    with translate_lines_distinct [OF post] have "distinct (map fst degdic)" .
    moreover from translate_lines_keeps [OF assms(4) post]
    have "map_of degdic grp = Some (?row v)"
      by (simp add: update_conv')
    ultimately show ?thesis by simp
  qed
  have stored: "padj r = v"
    if v: "parse_padj float_of cols = Inr v"
      and t: "translate_to_orthologs float_of (pre @ cols # post) orthodic calibrate duplicates = Inr t"
      and r: "map_of t grp = Some r" for v t r
  proof -
    from t obtain degdic df where run: "?lines (pre @ cols # post) [] = Inr degdic"
      and cal: "calibrate_frame calibrate degdic = Inr df"
      and tt: "t = (if duplicates then drop_duplicates_keep_False df else df)"
      by (auto simp: translate_to_orthologs_def bind_err_def split: sum.splits)
    from lines_row [OF v run] have row: "map_of degdic grp = Some (?row v)"
      and dist: "distinct (map fst degdic)" by simp_all
    from dist calibrate_frame_keys [OF cal] have "distinct (map fst df)" by simp
    have "map_of df grp = Some r"
    proof (cases duplicates)
      case True
      with r tt have "map_of (drop_duplicates_keep_False df) grp = Some r" by simp
      with \<open>distinct (map fst df)\<close> show ?thesis by (rule drop_duplicates_row)
    next
      case False
      with r tt show ?thesis by simp
    qed
    with calibrate_frame_padj [OF cal, of grp] row show ?thesis by simp
  qed
  have returns: "padj_of (translate_to_orthologs float_of (pre @ cols # post) orthodic None False) grp =
                 Inr (Some v)"
    if v: "parse_padj float_of cols = Inr v"
      and d: "?lines pre [] = Inr d" and dp: "?lines post [] = Inr dp" for v d dp
  proof -
    from translate_lines_returns [OF dp, of "AList.update grp (?row v) d"]
    obtain degdic where post: "?lines post (AList.update grp (?row v) d) = Inr degdic" by blast
    with whole v d have run: "?lines (pre @ cols # post) [] = Inr degdic"
      by (simp add: bind_err_def)
    from lines_row [OF v run] have "map_of degdic grp = Some (?row v)" by simp
    with run show ?thesis
      by (simp add: padj_of_def translate_to_orthologs_def bind_err_def calibrate_frame_def)
  qed
  show ?thesis
    unfolding Let_def chain [symmetric]
    using raise stored returns by blast
qed


theorem padj_fallback_chain_witness:
  "padj_of (translate_to_orthologs float_decimal
              ([deseq_header] @
               [''AAAA|1'', ''10'', ''1.5'', ''0.2'', ''7.5'', ''0.01'', ''NA''] #
               [[''AAAA|2'', ''12'', ''2.0'', ''0.2'', ''10'', ''0.001'', ''0.01'']])
              example_orthodic None False) ''G1'' = Inr (Some (Some 0.05)) \<and>
   padj_of (translate_to_orthologs float_decimal
              ([deseq_header] @
               [''AAAA|1'', ''10'', ''1.5'', ''0.2'', ''7.5'', ''0.3'', ''NA''] #
               [[''AAAA|2'', ''12'', ''2.0'', ''0.2'', ''10'', ''0.001'', ''0.01'']])
              example_orthodic None False) ''G1'' = Inr (Some (Some 1)) \<and>
   translate_to_orthologs float_decimal
              ([deseq_header] @
               [''AAAA|1'', ''10'', ''1.5'', ''0.2'', ''7.5'', ''n/a'', ''NA''] #
               [[''AAAA|2'', ''12'', ''2.0'', ''0.2'', ''10'', ''0.001'', ''0.01'']])
              example_orthodic (Some ''G2'') True = Inl ValueError"
proof -
  let ?post = "[[''AAAA|2'', ''12'', ''2.0'', ''0.2'', ''10'', ''0.001'', ''0.01'']]"
  have grp: "map_of example_orthodic ''AAAA|1'' = Some ''G1''"
    by (simp add: example_eval)
  have later: "list_all (\<lambda>l. \<not> (length l = 7 \<and> l ! 0 \<noteq> ''baseMean'' \<and>
      map_of example_orthodic (l ! 0) = Some ''G1'')) ?post"
    by (simp add: example_eval)
  have pre: "translate_lines float_decimal example_orthodic [deseq_header] [] = Inr []"
    by (simp add: example_eval)
  have post: "translate_lines float_decimal example_orthodic ?post [] =
      Inr [(''G2'', \<lparr>padj = Some 0.01, logfc = Some 2, basemean = Some 12\<rparr>)]"
    by (simp add: example_eval parse_padj_def parse_default_def float_eval)
  have a: "padj_of (translate_to_orthologs float_decimal
              ([deseq_header] @
               [''AAAA|1'', ''10'', ''1.5'', ''0.2'', ''7.5'', ''0.01'', ''NA''] # ?post)
              example_orthodic None False) ''G1'' = Inr (Some (Some 0.05))"
    using padj_fallback_chain [where float_of = float_decimal and orthodic = example_orthodic
        and pre = "[deseq_header]" and post = ?post and grp = "''G1''"
        and cols = "[''AAAA|1'', ''10'', ''1.5'', ''0.2'', ''7.5'', ''0.01'', ''NA'']",
        OF _ _ _ later] grp pre post
    by (simp add: Let_def float_eval)
  have b: "padj_of (translate_to_orthologs float_decimal
              ([deseq_header] @
               [''AAAA|1'', ''10'', ''1.5'', ''0.2'', ''7.5'', ''0.3'', ''NA''] # ?post)
              example_orthodic None False) ''G1'' = Inr (Some (Some 1))"
    using padj_fallback_chain [where float_of = float_decimal and orthodic = example_orthodic
        and pre = "[deseq_header]" and post = ?post and grp = "''G1''"
        and cols = "[''AAAA|1'', ''10'', ''1.5'', ''0.2'', ''7.5'', ''0.3'', ''NA'']",
        OF _ _ _ later] grp pre post
    by (simp add: Let_def float_eval)
  have c: "translate_to_orthologs float_decimal
              ([deseq_header] @
               [''AAAA|1'', ''10'', ''1.5'', ''0.2'', ''7.5'', ''n/a'', ''NA''] # ?post)
              example_orthodic (Some ''G2'') True = Inl ValueError"
    using padj_fallback_chain [where float_of = float_decimal and orthodic = example_orthodic
        and pre = "[deseq_header]" and post = ?post and grp = "''G1''"
        and calibrate = "Some ''G2''" and duplicates = True
        and cols = "[''AAAA|1'', ''10'', ''1.5'', ''0.2'', ''7.5'', ''n/a'', ''NA'']",
        OF _ _ _ later] grp
    by (simp add: Let_def float_eval)
  from a b c show ?thesis by simp
qed

text \<open>
  C3, as the claim states it, fails on a row whose column 6 is \<open>NA\<close> and whose column 5
  is \<open>n/a\<close>: neither parses, column 5 is not the literal \<open>NA\<close> and does not parse to a
  value below 0.05, so the claim gives the row the adjusted p-value 1. The code raises
  ValueError.
\<close>

theorem padj_fallback_counterexample:
  "float_decimal ''NA'' = None \<and> float_decimal ''n/a'' = None \<and> ''n/a'' \<noteq> ''NA'' \<and>
   padj_of (translate_to_orthologs float_decimal
              [deseq_header, [''AAAA|1'', ''10'', ''1.5'', ''0.2'', ''7.5'', ''n/a'', ''NA'']]
              example_orthodic None False) ''G1'' = Inl ValueError"
  by (simp add: padj_of_def translate_eval example_eval)

section \<open>Properties of one pairwise comparison\<close>

text \<open>Every exception of the analysis of a joined table is a division by zero.\<close>

lemma analyse_pair_error:
  "analyse_pair threshold df3 = Inl e \<Longrightarrow> e = ZeroDivisionError"
  by (auto simp: analyse_pair_def concordancecounts_def bind_err_def py_div_def Let_def
      split: sum.splits if_splits)

lemma example_analysed: "\<exists>s. analyse_pair 1 example_joined = Inr s"
  by (simp add: analyse_eval example_eval)

text \<open>
  C5, as the code has it. When the union of the significant sets equals the
  concordant-significant intersection, the comparison raises ZeroDivisionError: no
  value is stored for the pair. When the comparison returns, the two differ and the
  inverse Jaccard index is the union divided by the difference.
\<close>

theorem jaccard_zero_denominator:
  "(union_ab df3 = intersection_ab df3 \<longrightarrow> analyse_pair threshold df3 = Inl ZeroDivisionError) \<and>
   (\<forall>s. analyse_pair threshold df3 = Inr s \<longrightarrow>
        union_ab df3 \<noteq> intersection_ab df3 \<and>
        ijidx s = union_ab df3 / (union_ab df3 - intersection_ab df3))"
proof (intro conjI impI allI)
  assume eq: "union_ab df3 = intersection_ab df3"
  have "\<not> (\<exists>s. analyse_pair threshold df3 = Inr s)"
    using eq
    by (auto simp: analyse_pair_def bind_err_def py_div_def split: sum.splits if_splits)
  then obtain e where "analyse_pair threshold df3 = Inl e"
    by (cases "analyse_pair threshold df3") auto
  then show "analyse_pair threshold df3 = Inl ZeroDivisionError"
    using analyse_pair_error by blast
next
  fix s assume r: "analyse_pair threshold df3 = Inr s"
  then show "union_ab df3 \<noteq> intersection_ab df3"
    by (auto simp: analyse_pair_def bind_err_def py_div_def split: sum.splits if_splits)
  from r show "ijidx s = union_ab df3 / (union_ab df3 - intersection_ab df3)"
    by (auto simp: analyse_pair_def bind_err_def py_div_def split: sum.splits if_splits)
qed

theorem jaccard_zero_denominator_witness:
  "union_ab scenario_joined = intersection_ab scenario_joined \<and>
   analyse_pair 1 scenario_joined = Inl ZeroDivisionError \<and>
   union_ab example_joined \<noteq> intersection_ab example_joined \<and>
   bind_err (analyse_pair 1 example_joined) (\<lambda>s. Inr (ijidx s)) = Inr 2"
proof -
  have eq: "union_ab scenario_joined = intersection_ab scenario_joined"
    by (simp add: union_ab_def intersection_ab_def num_sig_def set_eval example_eval)
  have u: "union_ab example_joined = 2" and i: "intersection_ab example_joined = 1"
    by (simp_all add: union_ab_def intersection_ab_def num_sig_def set_eval example_eval)
  obtain s where s: "analyse_pair 1 example_joined = Inr s"
    using example_analysed by blast
  from jaccard_zero_denominator [of scenario_joined 1] eq
  have "analyse_pair 1 scenario_joined = Inl ZeroDivisionError" by blast
  moreover from jaccard_zero_denominator [of example_joined 1] s
  have "ijidx s = union_ab example_joined / (union_ab example_joined - intersection_ab example_joined)"
    by blast
  ultimately show ?thesis
    using eq s by (simp add: u i bind_err_def)
qed

text \<open>
  C5, as the claim states it, fails on the scenario of the specification: one group,
  significant and positive in both experiments. Union and intersection are both 1, and
  the whole pairwise run ends in ZeroDivisionError instead of storing an undefined
  value and going on.
\<close>

theorem jaccard_counterexample:
  "bind_err (joined_pair float_decimal scenario_fs example_orthodic None True ''a.txt'' ''b.txt'')
     (\<lambda>df3. Inr (union_ab df3 - intersection_ab df3)) = Inr 0 \<and>
   pairwise_comparisons float_decimal scenario_fs [''a.txt'', ''b.txt''] example_orthodic 1 None True =
     Inl ZeroDivisionError"
proof -
  have d: "union_ab scenario_joined - intersection_ab scenario_joined = 0"
    by (simp add: union_ab_def intersection_ab_def num_sig_def set_eval example_eval)
  have a: "analyse_pair 1 scenario_joined = Inl ZeroDivisionError"
    by (simp add: analyse_eval example_eval)
  show ?thesis
    unfolding pairwise_comparisons_def compare_pair_def
    by (simp add: scenario_joined_ab bind_err_def d a)
qed

text \<open>
  C6. The claim: the third correlation runs over the joined rows that are significant in
  at least one experiment, with the threshold 0.05 for both. The code: line 610 tests
  \<open>df3.padj <= 0.5\<close>. In the example the group \<open>G3\<close> has the adjusted p-value 0.3 in
  both experiments; it is not among the rows that \<open>num_sig\<close> counts with the threshold
  0.05 on both sides, and it is among the rows of the correlation.
\<close>

theorem onedeg_rows_selects_nonsignificant:
  "bind_err (joined_pair float_decimal example_fs example_orthodic None True ''a.txt'' ''b.txt'')
     (\<lambda>df3. Inr (map fst (onedeg_rows df3),
                  map fst (select (\<lambda>r. cle (padj2 r) 0.05 \<or> cle (padj1st r) 0.05) df3))) =
   Inr ([''G1'', ''G2'', ''G3''], [''G1'', ''G2''])"
  unfolding example_joined_ab
  by (simp add: bind_err_def onedeg_rows_def select_def padj2_def padj1st_def cle_def
      example_eval)




section \<open>Properties of the pairwise mode\<close>

text \<open>The loop returns exactly when every pair of different names is compared without an
  exception, and then it has appended one set per such pair, in order.\<close>

lemma pairwise_loop_Inr:
  "pairwise_loop cmp ps acc = Inr gs \<longleftrightarrow>
     (\<forall>(a, b) \<in> set ps. a \<noteq> b \<longrightarrow> (\<exists>s. cmp a b = Inr s)) \<and>
     gs = acc @ map (\<lambda>(a, b). con_sig1 (concordance_sets (projr (cmp a b))))
                  (filter (\<lambda>(a, b). a \<noteq> b) ps)"
proof (induction ps arbitrary: acc)
  case Nil
  show ?case by auto
next
  case (Cons p ps)
  obtain a b where p: "p = (a, b)" by (cases p)
  show ?case
  proof (cases "a = b")
    case True
    with p Cons show ?thesis by simp
  next
    case False
    show ?thesis
    proof (cases "cmp a b")
      case (Inl e)
      with p False show ?thesis by auto
    next
      case (Inr s)
      with p False Cons [of "acc @ [con_sig1 (concordance_sets s)]"] show ?thesis by simp
    qed
  qed
qed

lemma compare_pair_con_sig:
  assumes "compare_pair float_of fs orthodic threshold calibrate drop_nas a b = Inr s"
  shows "(case joined_pair float_of fs orthodic calibrate drop_nas a b of
            Inl e \<Rightarrow> UNIV
          | Inr df3 \<Rightarrow> (df1_sp df3 \<inter> df2_sp df3) \<union> (df1_sn df3 \<inter> df2_sn df3)) =
         con_sig1 (concordance_sets s)"
  using assms
  by (auto simp: compare_pair_def analyse_pair_def concordancecounts_def bind_err_def Let_def
      split: sum.splits)

lemma Inter_distinct_pairs:
  "\<Inter> (set (map f (filter (\<lambda>(a, b). a \<noteq> b) (List.product xs xs)))) =
     (\<Inter>a\<in>set xs. \<Inter>b\<in>set xs - {a}. f (a, b))"
  by auto

lemma distinct_pairs_empty:
  "filter (\<lambda>(a, b). a \<noteq> b) (List.product xs xs) = [] \<longleftrightarrow> \<not> (\<exists>a\<in>set xs. \<exists>b\<in>set xs. a \<noteq> b)"
  by (auto simp: filter_empty_conv)

text \<open>
  C1. \<open>pairwise_comparisons\<close> returns a set exactly when the list of experiments has two
  different names and every ordered pair of different names is compared without an
  exception; the set it returns is then the intersection, over all these pairs, of the
  concordant-significant set \<open>(sig_pos_A \<inter> sig_pos_B) \<union> (sig_neg_A \<inter> sig_neg_B)\<close> of the
  pair's joined table.
\<close>

theorem common_to_all_is_intersection:
  "pairwise_comparisons float_of fs exps orthodic threshold calibrate drop_nas = Inr common_to_all
   \<longleftrightarrow>
     (\<exists>a\<in>set exps. \<exists>b\<in>set exps. a \<noteq> b) \<and>
     (\<forall>a\<in>set exps. \<forall>b\<in>set exps. a \<noteq> b \<longrightarrow>
        (\<exists>s. compare_pair float_of fs orthodic threshold calibrate drop_nas a b = Inr s)) \<and>
     common_to_all =
       (\<Inter>a\<in>set exps. \<Inter>b\<in>set exps - {a}.
          (case joined_pair float_of fs orthodic calibrate drop_nas a b of
             Inl e \<Rightarrow> UNIV
           | Inr df3 \<Rightarrow> (df1_sp df3 \<inter> df2_sp df3) \<union> (df1_sn df3 \<inter> df2_sn df3)))"
  (is "?L \<longleftrightarrow> ?some \<and> ?ok \<and> ?eq")
proof -
  let ?cmp = "compare_pair float_of fs orthodic threshold calibrate drop_nas"
  let ?ps = "List.product exps exps"
  let ?f = "\<lambda>(a, b). con_sig1 (concordance_sets (projr (?cmp a b)))"
  let ?g = "\<lambda>(a, b). (case joined_pair float_of fs orthodic calibrate drop_nas a b of
             Inl e \<Rightarrow> UNIV
           | Inr df3 \<Rightarrow> (df1_sp df3 \<inter> df2_sp df3) \<union> (df1_sn df3 \<inter> df2_sn df3))"
  let ?gs = "map ?f (filter (\<lambda>(a, b). a \<noteq> b) ?ps)"
  have loop: "\<And>gs. pairwise_loop ?cmp ?ps [] = Inr gs \<longleftrightarrow> ?ok \<and> gs = ?gs"
    by (subst pairwise_loop_Inr) auto
  have L: "?L \<longleftrightarrow> ?ok \<and> ?gs \<noteq> [] \<and> common_to_all = \<Inter> (set ?gs)"
  proof (cases "pairwise_loop ?cmp ?ps []")
    case (Inl e)
    with loop [of ?gs] show ?thesis
      by (auto simp: pairwise_comparisons_def bind_err_def)
  next
    case (Inr gs)
    with loop [of gs] show ?thesis
      by (auto simp: pairwise_comparisons_def bind_err_def)
  qed
  have ne: "?gs \<noteq> [] \<longleftrightarrow> ?some"
    using distinct_pairs_empty [of exps] by simp
  have "\<Inter> (set ?gs) = (\<Inter>a\<in>set exps. \<Inter>b\<in>set exps - {a}. ?g (a, b))" if ?ok
  proof -
    have "?f (a, b) = ?g (a, b)" if "a \<in> set exps" "b \<in> set exps" "a \<noteq> b" for a b
    proof -
      from \<open>?ok\<close> that obtain s where s: "?cmp a b = Inr s" by blast
      from compare_pair_con_sig [OF s] s show ?thesis by simp
    qed
    then have "(\<Inter>a\<in>set exps. \<Inter>b\<in>set exps - {a}. ?f (a, b)) =
               (\<Inter>a\<in>set exps. \<Inter>b\<in>set exps - {a}. ?g (a, b))"
      by (intro INF_cong refl) auto
    then show ?thesis
      unfolding Inter_distinct_pairs .
  qed
  with L ne show ?thesis by auto
qed

theorem common_to_all_is_intersection_witness:
  "pairwise_comparisons float_decimal example_fs [''a.txt'', ''b.txt''] example_orthodic 1 None True =
     Inr {''G1''} \<and>
   {''G1''} =
     (\<Inter>a\<in>set [''a.txt'', ''b.txt'']. \<Inter>b\<in>set [''a.txt'', ''b.txt''] - {a}.
        (case joined_pair float_decimal example_fs example_orthodic None True a b of
           Inl e \<Rightarrow> UNIV
         | Inr df3 \<Rightarrow> (df1_sp df3 \<inter> df2_sp df3) \<union> (df1_sn df3 \<inter> df2_sn df3)))"
proof -
  have ab: "bind_err (analyse_pair 1 example_joined) (\<lambda>s. Inr (con_sig1 (concordance_sets s))) =
      Inr {''G1''}"
    by (simp add: analyse_eval example_eval)
  have ba: "bind_err (analyse_pair 1 example_joined_rev) (\<lambda>s. Inr (con_sig1 (concordance_sets s))) =
      Inr {''G1''}"
    by (simp add: analyse_eval example_eval)
  from ab obtain s where s: "analyse_pair 1 example_joined = Inr s"
    and cs: "con_sig1 (concordance_sets s) = {''G1''}"
    by (auto simp: bind_err_def split: sum.splits)
  from ba obtain t where t: "analyse_pair 1 example_joined_rev = Inr t"
    and ct: "con_sig1 (concordance_sets t) = {''G1''}"
    by (auto simp: bind_err_def split: sum.splits)
  have run: "pairwise_comparisons float_decimal example_fs [''a.txt'', ''b.txt''] example_orthodic
      1 None True = Inr {''G1''}"
    unfolding pairwise_comparisons_def compare_pair_def
    by (simp add: example_joined_ab example_joined_ba bind_err_def s t cs ct)
  note all_pairs = common_to_all_is_intersection [THEN iffD1, OF run]
  show ?thesis
    by (rule conjI [OF run conjunct2 [OF conjunct2 [OF all_pairs]]])
qed

section \<open>Properties of the global mode\<close>

lemma foldl_and_list_all:
  "foldl (\<lambda>acc i. P i \<and> acc) b xs = (b \<and> list_all P xs)"
  by (induction xs arbitrary: b) auto

lemma foldl_or_list_ex:
  "foldl (\<lambda>acc i. P i \<or> acc) b xs = (b \<or> list_ex P xs)"
  by (induction xs arbitrary: b) auto

lemma all_positions:
  assumes "r \<noteq> []"
  shows "(P (r ! 0) \<and> list_all (\<lambda>i. P (r ! i)) [1..<length r]) \<longleftrightarrow> (\<forall>d\<in>set r. P d)"
proof -
  have "(\<forall>d\<in>set r. P d) \<longleftrightarrow> (\<forall>i<length r. P (r ! i))"
    by (simp add: all_set_conv_all_nth)
  also have "\<dots> \<longleftrightarrow> P (r ! 0) \<and> (\<forall>i. 1 \<le> i \<and> i < length r \<longrightarrow> P (r ! i))"
    using assms by (metis length_greater_0_conv less_one linorder_not_less)
  finally show ?thesis
    by (auto simp: list_all_iff)
qed

lemma some_position:
  assumes "r \<noteq> []"
  shows "(P (r ! 0) \<or> list_ex (\<lambda>i. P (r ! i)) [1..<length r]) \<longleftrightarrow> (\<exists>d\<in>set r. P d)"
  using all_positions [OF assms, of "\<lambda>d. \<not> P d"]
  by (simp add: list_all_iff list_ex_iff) blast

text \<open>
  C4. For a row of the wide table with one entry per experiment: each all-experiments
  reduction (significant, positive, negative, big change) holds exactly when every
  experiment whose value is not null satisfies the test, so a null never contradicts;
  each at-least-one reduction holds exactly when some experiment has a value that is
  not null and satisfies the test, so a null is never evidence.
\<close>

theorem null_in_reductions:
  assumes "r \<noteq> []"
  shows "(sig_all (length r) r \<longleftrightarrow> (\<forall>d\<in>set r. \<forall>p. padj d = Some p \<longrightarrow> p \<le> 0.05)) \<and>
         (pos_all (length r) r \<longleftrightarrow> (\<forall>d\<in>set r. \<forall>x. logfc d = Some x \<longrightarrow> 0 < x)) \<and>
         (neg_all (length r) r \<longleftrightarrow> (\<forall>d\<in>set r. \<forall>x. logfc d = Some x \<longrightarrow> x < 0)) \<and>
         (bigchange t (length r) r \<longleftrightarrow>
            (\<forall>d\<in>set r. \<forall>x. logfc d = Some x \<longrightarrow> t \<le> x \<or> x \<le> - t)) \<and>
         (sig_alo (length r) r \<longleftrightarrow> (\<exists>d\<in>set r. \<exists>p. padj d = Some p \<and> p \<le> 0.05)) \<and>
         (pos_alo (length r) r \<longleftrightarrow> (\<exists>d\<in>set r. \<exists>x. logfc d = Some x \<and> 0 < x)) \<and>
         (neg_alo (length r) r \<longleftrightarrow> (\<exists>d\<in>set r. \<exists>x. logfc d = Some x \<and> x < 0)) \<and>
         (bigchange_alo t (length r) r \<longleftrightarrow>
            (\<exists>d\<in>set r. \<exists>x. logfc d = Some x \<and> (t \<le> x \<or> x \<le> - t)))"
proof (intro conjI)
  have c1: "(cle c v \<or> isnull c) = (\<forall>p. c = Some p \<longrightarrow> p \<le> v)" for c v
    by (cases c) (auto simp: cle_def isnull_def)
  have c2: "(cgt c v \<or> isnull c) = (\<forall>p. c = Some p \<longrightarrow> v < p)" for c v
    by (cases c) (auto simp: cgt_def isnull_def)
  have c3: "(clt c v \<or> isnull c) = (\<forall>p. c = Some p \<longrightarrow> p < v)" for c v
    by (cases c) (auto simp: clt_def isnull_def)
  have c4: "(cge c v \<or> cle c w \<or> isnull c) = (\<forall>p. c = Some p \<longrightarrow> v \<le> p \<or> p \<le> w)" for c v w
    by (cases c) (auto simp: cge_def cle_def isnull_def)
  have d1: "cle c v = (\<exists>p. c = Some p \<and> p \<le> v)" for c v
    by (cases c) (auto simp: cle_def)
  have d2: "cgt c v = (\<exists>p. c = Some p \<and> v < p)" for c v
    by (cases c) (auto simp: cgt_def)
  have d3: "clt c v = (\<exists>p. c = Some p \<and> p < v)" for c v
    by (cases c) (auto simp: clt_def)
  have d4: "(cge c v \<or> cle c w) = (\<exists>p. c = Some p \<and> (v \<le> p \<or> p \<le> w))" for c v w
    by (cases c) (auto simp: cge_def cle_def)
  show "sig_all (length r) r \<longleftrightarrow> (\<forall>d\<in>set r. \<forall>p. padj d = Some p \<longrightarrow> p \<le> 0.05)"
    unfolding sig_all_def foldl_and_list_all c1
    using all_positions [OF assms, of "\<lambda>d. \<forall>p. padj d = Some p \<longrightarrow> p \<le> 0.05"] by simp
  show "pos_all (length r) r \<longleftrightarrow> (\<forall>d\<in>set r. \<forall>x. logfc d = Some x \<longrightarrow> 0 < x)"
    unfolding pos_all_def foldl_and_list_all c2
    using all_positions [OF assms, of "\<lambda>d. \<forall>p. logfc d = Some p \<longrightarrow> 0 < p"] by simp
  show "neg_all (length r) r \<longleftrightarrow> (\<forall>d\<in>set r. \<forall>x. logfc d = Some x \<longrightarrow> x < 0)"
    unfolding neg_all_def foldl_and_list_all c3
    using all_positions [OF assms, of "\<lambda>d. \<forall>p. logfc d = Some p \<longrightarrow> p < 0"] by simp
  show "bigchange t (length r) r \<longleftrightarrow>
            (\<forall>d\<in>set r. \<forall>x. logfc d = Some x \<longrightarrow> t \<le> x \<or> x \<le> - t)"
    unfolding bigchange_def foldl_and_list_all c4
    using all_positions [OF assms, of "\<lambda>d. \<forall>p. logfc d = Some p \<longrightarrow> t \<le> p \<or> p \<le> - t"]
    by simp
  show "sig_alo (length r) r \<longleftrightarrow> (\<exists>d\<in>set r. \<exists>p. padj d = Some p \<and> p \<le> 0.05)"
    unfolding sig_alo_def foldl_or_list_ex d1
    using some_position [OF assms, of "\<lambda>d. \<exists>p. padj d = Some p \<and> p \<le> 0.05"] by simp
  show "pos_alo (length r) r \<longleftrightarrow> (\<exists>d\<in>set r. \<exists>x. logfc d = Some x \<and> 0 < x)"
    unfolding pos_alo_def foldl_or_list_ex d2
    using some_position [OF assms, of "\<lambda>d. \<exists>p. logfc d = Some p \<and> 0 < p"] by simp
  show "neg_alo (length r) r \<longleftrightarrow> (\<exists>d\<in>set r. \<exists>x. logfc d = Some x \<and> x < 0)"
    unfolding neg_alo_def foldl_or_list_ex d3
    using some_position [OF assms, of "\<lambda>d. \<exists>p. logfc d = Some p \<and> p < 0"] by simp
  have assoc: "(\<lambda>big i. cge (logfc (r ! i)) t \<or> cle (logfc (r ! i)) (- t) \<or> big) =
               (\<lambda>big i. (cge (logfc (r ! i)) t \<or> cle (logfc (r ! i)) (- t)) \<or> big)"
    by auto
  show "bigchange_alo t (length r) r \<longleftrightarrow>
            (\<exists>d\<in>set r. \<exists>x. logfc d = Some x \<and> (t \<le> x \<or> x \<le> - t))"
    unfolding bigchange_alo_def assoc foldl_or_list_ex d4
    using some_position [OF assms, of "\<lambda>d. \<exists>p. logfc d = Some p \<and> (t \<le> p \<or> p \<le> - t)"]
    by simp
qed

theorem null_in_reductions_witness:
  "half_null_row \<noteq> [] \<and> length half_null_row = 2 \<and>
   sig_all 2 half_null_row \<and> pos_all 2 half_null_row \<and> \<not> neg_all 2 half_null_row \<and>
   bigchange 1 2 half_null_row \<and> sig_alo 2 half_null_row \<and> pos_alo 2 half_null_row \<and>
   \<not> neg_alo 2 half_null_row \<and> bigchange_alo 1 2 half_null_row \<and>
   sig_all 2 all_null_row \<and> pos_all 2 all_null_row \<and> neg_all 2 all_null_row \<and>
   bigchange 1 2 all_null_row \<and> \<not> sig_alo 2 all_null_row \<and> \<not> pos_alo 2 all_null_row \<and>
   \<not> neg_alo 2 all_null_row \<and> \<not> bigchange_alo 1 2 all_null_row"
proof -
  have h: "half_null_row \<noteq> []" "length half_null_row = 2"
    and a: "all_null_row \<noteq> []" "length all_null_row = 2"
    by (simp_all add: half_null_row_def all_null_row_def)
  have "\<exists>d\<in>set half_null_row. \<exists>p. padj d = Some p \<and> p \<le> 0.05"
    unfolding half_null_row_def
    by (intro bexI [of _ "\<lparr>padj = Some 0.01, logfc = Some 2, basemean = Some 10\<rparr>"]
          exI [of _ "0.01"]) simp_all
  with null_in_reductions [OF h(1), of 1] have s: "sig_alo 2 half_null_row"
    unfolding h(2) by blast
  from null_in_reductions [OF h(1), of 1]
  have "sig_all 2 half_null_row \<and> pos_all 2 half_null_row \<and> \<not> neg_all 2 half_null_row \<and>
      bigchange 1 2 half_null_row \<and> pos_alo 2 half_null_row \<and> \<not> neg_alo 2 half_null_row \<and>
      bigchange_alo 1 2 half_null_row"
    unfolding h(2) by (simp add: half_null_row_def nan_deg_def)
  moreover from null_in_reductions [OF a(1), of 1]
  have "sig_all 2 all_null_row \<and> pos_all 2 all_null_row \<and> neg_all 2 all_null_row \<and>
      bigchange 1 2 all_null_row \<and> \<not> sig_alo 2 all_null_row \<and> \<not> pos_alo 2 all_null_row \<and>
      \<not> neg_alo 2 all_null_row \<and> \<not> bigchange_alo 1 2 all_null_row"
    unfolding a(2) by (simp add: all_null_row_def nan_deg_def)
  ultimately show ?thesis
    using h a s by simp
qed

section \<open>Properties of the enrichment report\<close>

lemma report_square_set:
  "set (report_square fdr pv s) =
     {f. \<exists>q. f = With_FDR s q \<and> fdr (pv s) = Some q \<and> q \<le> 0.05 \<and> 1 < TwG s} \<union>
     {f. f = FDR_not_determined s (pv s) \<and> fdr (pv s) = None \<and> pv s \<le> 0.05 \<and> 1 < TwG s}"
  by (auto simp: report_square_def split: option.splits)

text \<open>
  C7, as the code has it. A domain is reported with its FDR exactly when the correction
  gives its p-value a q-value of at most 0.05 and more than one target gene carries it;
  it is reported as FDR not determined, with its raw p-value, exactly when the
  correction gives its p-value no q-value, the raw p-value is at most 0.05 and more
  than one target gene carries it. Nothing else is reported: a domain carried by a
  single target gene never is.
\<close>

theorem enrichment_report_findings:
  "set (enrichment_report fisher_test p_to_q fs) =
     {f. \<exists>s q. f = With_FDR s q \<and> s \<in> set fs \<and>
            p_to_q (map fisher_test fs) (fisher_test s) = Some q \<and> q \<le> 0.05 \<and> 1 < TwG s} \<union>
     {f. \<exists>s. f = FDR_not_determined s (fisher_test s) \<and> s \<in> set fs \<and>
            p_to_q (map fisher_test fs) (fisher_test s) = None \<and>
            fisher_test s \<le> 0.05 \<and> 1 < TwG s}"
  unfolding enrichment_report_def Let_def set_concat set_map
  by (auto simp: report_square_set)

theorem enrichment_report_findings_witness:
  "With_FDR strong_square 0.001 \<in>
     set (enrichment_report example_test identity_correction
            [strong_square, single_gene_square, weak_square])"
proof -
  have "strong_square \<in> set [strong_square, single_gene_square, weak_square]"
    by simp
  moreover have "identity_correction
      (map example_test [strong_square, single_gene_square, weak_square])
      (example_test strong_square) = Some 0.001"
    by (simp add: square_eval)
  moreover have "(0.001::real) \<le> 0.05" and "1 < TwG strong_square"
    by (simp_all add: square_eval)
  ultimately show ?thesis
    unfolding enrichment_report_findings by blast
qed

text \<open>
  C7, as the claim states it, fails twice. A domain carried by exactly one target gene,
  with a corrected value of 0.001, is not reported at all, flagged or not. A domain
  whose corrected value could not be computed and whose raw p-value is 0.2 is not
  reported either, although three target genes carry it.
\<close>

theorem enrichment_report_counterexample:
  "TwG single_gene_square = 1 \<and>
   identity_correction [example_test single_gene_square] (example_test single_gene_square) =
     Some 0.001 \<and>
   enrichment_report example_test identity_correction [single_gene_square] = [] \<and>
   TwG weak_square = 3 \<and>
   no_correction [example_test weak_square] (example_test weak_square) = None \<and>
   enrichment_report example_test no_correction [weak_square] = []"
  by (simp add: square_eval)

section \<open>Properties of the main program\<close>

lemma example_index:
  "bind_err (open_file example_fs ''groups.txt'')
     (\<lambda>orthofile. fetch_orthologs orthofile None (Some [''CCCC'']) False) =
   Inr (example_orthodic,
        [(''G1'', [''AAAA|1'', ''BBBB|1'']), (''G2'', [''AAAA|2'', ''BBBB|2'']),
         (''G3'', [''AAAA|3'', ''BBBB|3''])])"
  by (simp add: bind_err_def open_file_def fetch_orthologs_def species_def counter_get_def
      group_accepted_def whitelist_of_def add_group_def example_eval)

text \<open>
  C8, as the code has it. When an experiment file is missing, the program names the
  missing files and exits with status 1 without opening the orthology file. When all
  experiment files exist, fewer than two are given and the index is built without an
  exception, the program exits with status 1 as well, and reports the lack of
  experiments only after it has opened the orthology file, built the index and
  reported its size.
\<close>

theorem main_fatal_errors:
  "(list_ex (\<lambda>f. fs f = None) (args_experiments a) \<longrightarrow>
      main fs a =
        (map Could_not_be_found (filter (\<lambda>f. fs f = None) (args_experiments a)), Exit 1)) \<and>
   (list_all (\<lambda>f. fs f \<noteq> None) (args_experiments a) \<and> length (args_experiments a) < 2 \<and>
    bind_err (open_file fs (args_orthologs a))
      (\<lambda>orthofile. fetch_orthologs orthofile (species_list (args_mustcontain a))
                      (species_list (args_exclude a)) (args_manage_duplicates a)) =
      Inr (orthodic, ortho_idx) \<longrightarrow>
      main fs a =
        (announce a @ [Open_orthology_file (args_orthologs a),
                       Genes_indexed (length orthodic) (length ortho_idx), Insufficient_files],
         Exit 1))"
proof (intro conjI impI)
  assume "list_ex (\<lambda>f. fs f = None) (args_experiments a)"
  then have "filter (\<lambda>f. fs f = None) (args_experiments a) \<noteq> []"
    by (simp add: list_ex_iff filter_empty_conv)
  then show "main fs a =
      (map Could_not_be_found (filter (\<lambda>f. fs f = None) (args_experiments a)), Exit 1)"
    by (simp add: main_def)
next
  assume h: "list_all (\<lambda>f. fs f \<noteq> None) (args_experiments a) \<and> length (args_experiments a) < 2 \<and>
    bind_err (open_file fs (args_orthologs a))
      (\<lambda>orthofile. fetch_orthologs orthofile (species_list (args_mustcontain a))
                      (species_list (args_exclude a)) (args_manage_duplicates a)) =
      Inr (orthodic, ortho_idx)"
  then have "filter (\<lambda>f. fs f = None) (args_experiments a) = []"
    by (simp add: list_all_iff filter_empty_conv)
  with h show "main fs a =
        (announce a @ [Open_orthology_file (args_orthologs a),
                       Genes_indexed (length orthodic) (length ortho_idx), Insufficient_files],
         Exit 1)"
    by (simp add: main_def Let_def)
qed

theorem main_fatal_errors_witness:
  "main example_fs missing_file_args = ([Could_not_be_found ''c.txt''], Exit 1) \<and>
   main example_fs no_experiment_args =
     ([Not_worrying_about [''CCCC''], Open_orthology_file ''groups.txt'', Genes_indexed 9 3,
       Insufficient_files], Exit 1)"
proof -
  have m: "list_ex (\<lambda>f. example_fs f = None) (args_experiments missing_file_args)"
    by (simp add: args_eval example_eval)
  have n: "list_all (\<lambda>f. example_fs f \<noteq> None) (args_experiments no_experiment_args)"
    "length (args_experiments no_experiment_args) < 2"
    by (simp_all add: args_eval)
  have i: "bind_err (open_file example_fs (args_orthologs no_experiment_args))
      (\<lambda>orthofile. fetch_orthologs orthofile (species_list (args_mustcontain no_experiment_args))
                      (species_list (args_exclude no_experiment_args))
                      (args_manage_duplicates no_experiment_args)) =
      Inr (example_orthodic,
        [(''G1'', [''AAAA|1'', ''BBBB|1'']), (''G2'', [''AAAA|2'', ''BBBB|2'']),
         (''G3'', [''AAAA|3'', ''BBBB|3''])])"
    using example_index by (simp add: args_eval)
  from main_fatal_errors [of example_fs missing_file_args] m
  have "main example_fs missing_file_args =
      (map Could_not_be_found
         (filter (\<lambda>f. example_fs f = None) (args_experiments missing_file_args)), Exit 1)"
    by blast
  moreover from main_fatal_errors [of example_fs no_experiment_args] n i
  have "main example_fs no_experiment_args =
      (announce no_experiment_args @
         [Open_orthology_file (args_orthologs no_experiment_args),
          Genes_indexed (length example_orthodic) 3, Insufficient_files], Exit 1)"
    by simp
  ultimately show ?thesis
    by (simp add: args_eval example_eval)
qed

text \<open>
  C8, as the claim states it, fails on a run with the single experiment \<open>a.txt\<close>: the
  orthology file is opened and the three groups are indexed before the lack of
  experiments is reported.
\<close>

theorem main_single_experiment_counterexample:
  "length (args_experiments one_experiment_args) = 1 \<and>
   main example_fs one_experiment_args =
     ([Not_worrying_about [''CCCC''], Open_orthology_file ''groups.txt'', Genes_indexed 9 3,
       Insufficient_files], Exit 1)"
proof -
  have "example_fs ''a.txt'' \<noteq> None"
    by (simp add: example_eval)
  then show ?thesis
    using example_index by (simp add: main_def args_eval example_orthodic_def)
qed

end
